theory Spec2Isabelle
  imports
    Complex_Main
    "HOL-Library.AList"
    "HOL-Library.Char_ord"
    "HOL-Library.List_Lexorder"
    "HOL-Library.Product_Lexorder"
    "HOL-Library.Sublist"
begin

section \<open>Dates\<close>

text \<open>
  A \<^verbatim>\<open>datetime.date\<close> is modelled by its proleptic Gregorian ordinal
  (\<^verbatim>\<open>date.toordinal()\<close>): day 1 is 0001-01-01 and the last date,
  \<^verbatim>\<open>date.max\<close> = 9999-12-31, is day 3652059. Comparison of dates is comparison
  of ordinals, \<^verbatim>\<open>(a - b).days\<close> is the difference of ordinals, and adding a
  \<^verbatim>\<open>timedelta\<close> raises \<^verbatim>\<open>OverflowError\<close> when the result leaves the range.
  A \<^verbatim>\<open>datetime.datetime\<close> is modelled by an integer time stamp.
\<close>

type_synonym date = int
type_synonym datetime = int

datatype error =
    OverflowError
  | ValueError string
  | IntegrityError

definition date_min :: date where
  "date_min = 1"

definition date_max :: date where
  "date_max = 3652059"

definition valid_date :: "date \<Rightarrow> bool" where
  "valid_date d = (date_min \<le> d \<and> d \<le> date_max)"

text \<open>\<^verbatim>\<open>d + timedelta(days=n)\<close>\<close>

definition date_add :: "date \<Rightarrow> int \<Rightarrow> error + date" where
  "date_add d n = (if valid_date (d + n) then Inr (d + n) else Inl OverflowError)"

text \<open>\<^verbatim>\<open>date.weekday()\<close>: Monday is 0, Sunday is 6.\<close>

definition weekday :: "date \<Rightarrow> int" where
  "weekday d = (d + 6) mod 7"

section \<open>The request tracker (tracker.py)\<close>

datatype RequestStatus =
    DRAFT
  | FILED
  | ACKNOWLEDGED
  | PROCESSING
  | EXTENDED
  | PARTIAL_RESPONSE
  | COMPLETE
  | DENIED
  | APPEALED
  | APPEAL_WON
  | APPEAL_DENIED
  | LITIGATION
  | WITHDRAWN
  | NO_RESPONSIVE_RECORDS

text \<open>
  One row of the table \<^verbatim>\<open>foia_requests\<close>. A nullable column is an option; the primary
  key \<^verbatim>\<open>id\<close> is the field \<open>id_pk\<close>.
\<close>

record FOIARequest =
  id_pk :: int
  reference_id :: "string option"
  agency :: string
  agency_key :: "string option"
  jurisdiction :: string
  topic :: string
  date_created :: datetime
  date_filed :: "date option"
  deadline :: "date option"
  date_acknowledged :: "date option"
  date_extended :: "date option"
  extended_deadline :: "date option"
  date_response :: "date option"
  status :: RequestStatus
  docs_received :: "int option"
  pages_received :: "int option"
  pages_withheld :: "int option"
  exemptions_cited :: "string option"
  filing_method :: "string option"
  confirmation_number :: "string option"
  assigned_analyst :: "string option"
  fee_paid :: "string option"
  fee_waiver_requested :: "bool option"
  fee_waiver_granted :: "bool option"
  request_text :: "string option"
  response_summary :: "string option"
  notes_col :: "string option"
  appeal_filed :: "bool option"
  appeal_date :: "date option"
  appeal_body :: "string option"
  appeal_outcome :: "string option"

text \<open>
  \<^verbatim>\<open>self.extended_deadline or self.deadline\<close>: a date is always truthy, so the
  \<^verbatim>\<open>or\<close> yields the extended deadline unless it is \<^verbatim>\<open>None\<close>.
\<close>

definition effective_deadline :: "FOIARequest \<Rightarrow> date option" where
  "effective_deadline r =
     (case extended_deadline r of Some e \<Rightarrow> Some e | None \<Rightarrow> deadline r)"

definition terminal :: "RequestStatus list" where
  "terminal = [COMPLETE, DENIED, WITHDRAWN, NO_RESPONSIVE_RECORDS]"

text \<open>\<^verbatim>\<open>FOIARequest.is_overdue\<close>, with \<^verbatim>\<open>date.today()\<close> as the argument \<open>today\<close>.\<close>

definition is_overdue :: "date \<Rightarrow> FOIARequest \<Rightarrow> bool" where
  "is_overdue today r =
     (if status r \<in> set [COMPLETE, DENIED, WITHDRAWN, NO_RESPONSIVE_RECORDS] then False
      else (case effective_deadline r of
              None \<Rightarrow> False
            | Some d \<Rightarrow> today > d))"

text \<open>\<^verbatim>\<open>FOIARequest.days_until_deadline\<close>\<close>

definition days_until_deadline :: "date \<Rightarrow> FOIARequest \<Rightarrow> int option" where
  "days_until_deadline today r =
     (case effective_deadline r of
        None \<Rightarrow> None
      | Some d \<Rightarrow> Some (d - today))"

text \<open>
  The store is the list of the table's rows. \<^verbatim>\<open>TrackerDB.get_overdue\<close> is the query
  \<^verbatim>\<open>status NOT IN terminal AND ((extended_deadline IS NOT NULL AND extended_deadline < today)
  OR (extended_deadline IS NULL AND deadline IS NOT NULL AND deadline < today))\<close>;
  a comparison with \<^verbatim>\<open>NULL\<close> is not true in SQL.
\<close>

type_synonym db = "FOIARequest list"

definition sql_lt :: "date option \<Rightarrow> date \<Rightarrow> bool" where
  "sql_lt c today = (case c of None \<Rightarrow> False | Some d \<Rightarrow> d < today)"

definition get_overdue :: "date \<Rightarrow> db \<Rightarrow> FOIARequest list" where
  "get_overdue today rows =
     filter (\<lambda>r. status r \<notin> set terminal \<and>
                 ((extended_deadline r \<noteq> None \<and> sql_lt (extended_deadline r) today) \<or>
                  (extended_deadline r = None \<and> deadline r \<noteq> None \<and> sql_lt (deadline r) today)))
        rows"

text \<open>A request as \<^verbatim>\<open>create_request\<close> stores it, used in the examples below.\<close>

definition example_request :: FOIARequest where
  "example_request =
     \<lparr> id_pk = 1, reference_id = None, agency = ''USDA-APHIS'', agency_key = None,
       jurisdiction = ''US-Federal'', topic = ''inspection reports'',
       date_created = 1000, date_filed = Some 738970, deadline = None,
       date_acknowledged = None, date_extended = None, extended_deadline = None,
       date_response = None, status = FILED, docs_received = Some 0,
       pages_received = Some 0, pages_withheld = Some 0, exemptions_cited = None,
       filing_method = None, confirmation_number = None, assigned_analyst = None,
       fee_paid = None, fee_waiver_requested = Some True, fee_waiver_granted = None,
       request_text = Some [], response_summary = None, notes_col = None,
       appeal_filed = Some False, appeal_date = None, appeal_body = None,
       appeal_outcome = None \<rparr>"

section \<open>Updating a request (tracker.py)\<close>

text \<open>
  The store's \<^verbatim>\<open>Integer\<close> columns hold signed 64-bit integers: binding a Python
  integer outside that range to a statement raises \<^verbatim>\<open>OverflowError\<close> before the
  statement runs.
\<close>

definition sqlite_int_ok :: "int \<Rightarrow> bool" where
  "sqlite_int_ok v = (- (2 ^ 63) \<le> v \<and> v < 2 ^ 63)"

definition int_column_ok :: "int option \<Rightarrow> bool" where
  "int_column_ok c = (case c of None \<Rightarrow> True | Some v \<Rightarrow> sqlite_int_ok v)"

text \<open>
  \<^verbatim>\<open>session.get(FOIARequest, request_id)\<close>: the row with that primary key, if any. The
  key is bound to the query, so a key outside the integer range raises.
\<close>

definition session_get :: "db \<Rightarrow> int \<Rightarrow> error + FOIARequest option" where
  "session_get rows request_id =
     (if sqlite_int_ok request_id then Inr (find (\<lambda>r. id_pk r = request_id) rows)
      else Inl OverflowError)"

text \<open>
  \<^verbatim>\<open>session.commit()\<close> for one loaded object \<open>old\<close> that the call changed to \<open>new\<close>: the
  row of \<open>old\<close> is rewritten with the columns whose value changed. A changed
  \<^verbatim>\<open>Integer\<close> column outside the integer range raises \<^verbatim>\<open>OverflowError\<close>. The table has
  a primary key \<^verbatim>\<open>id\<close> and a unique column \<^verbatim>\<open>reference_id\<close> (\<^verbatim>\<open>NULL\<close> excepted); the
  update is refused with \<^verbatim>\<open>IntegrityError\<close> when one of the two was changed to a value
  another row holds. In both cases nothing is stored.
\<close>

definition int_overflow :: "FOIARequest \<Rightarrow> FOIARequest \<Rightarrow> bool" where
  "int_overflow old new =
     ((id_pk new \<noteq> id_pk old \<and> \<not> sqlite_int_ok (id_pk new)) \<or>
      (docs_received new \<noteq> docs_received old \<and> \<not> int_column_ok (docs_received new)) \<or>
      (pages_received new \<noteq> pages_received old \<and> \<not> int_column_ok (pages_received new)) \<or>
      (pages_withheld new \<noteq> pages_withheld old \<and> \<not> int_column_ok (pages_withheld new)))"

definition unique_violation :: "db \<Rightarrow> FOIARequest \<Rightarrow> FOIARequest \<Rightarrow> bool" where
  "unique_violation rows old new =
     list_ex (\<lambda>r. id_pk r \<noteq> id_pk old \<and>
                  ((id_pk new \<noteq> id_pk old \<and> id_pk r = id_pk new) \<or>
                   (reference_id new \<noteq> reference_id old \<and> reference_id new \<noteq> None \<and>
                    reference_id r = reference_id new)))
       rows"

definition commit :: "db \<Rightarrow> FOIARequest \<Rightarrow> FOIARequest \<Rightarrow> error + db" where
  "commit rows old new =
     (if int_overflow old new then Inl OverflowError
      else if unique_violation rows old new then Inl IntegrityError
      else Inr (map (\<lambda>r. if id_pk r = id_pk old then new else r) rows))"

text \<open>
  The keyword arguments of \<^verbatim>\<open>update_status\<close>, in the order of \<^verbatim>\<open>kwargs.items()\<close>. A
  key that names a column sets it (\<^verbatim>\<open>hasattr\<close> holds, \<^verbatim>\<open>setattr\<close> assigns); the value
  has the column's Python type, and a column that is not nullable takes no \<^verbatim>\<open>None\<close>.
  \<open>Other\<close> is a key for which \<^verbatim>\<open>hasattr\<close> is false: it is skipped. Keys that name an
  attribute of the class that is not a column (a method, the mapper's own state) are not
  modelled. The key \<^verbatim>\<open>status\<close> cannot be passed, being the name of a parameter.
\<close>

datatype field_update =
    Set_id int
  | Set_reference_id "string option"
  | Set_agency string
  | Set_agency_key "string option"
  | Set_jurisdiction string
  | Set_topic string
  | Set_date_created datetime
  | Set_date_filed "date option"
  | Set_deadline "date option"
  | Set_date_acknowledged "date option"
  | Set_date_extended "date option"
  | Set_extended_deadline "date option"
  | Set_date_response "date option"
  | Set_docs_received "int option"
  | Set_pages_received "int option"
  | Set_pages_withheld "int option"
  | Set_exemptions_cited "string option"
  | Set_filing_method "string option"
  | Set_confirmation_number "string option"
  | Set_assigned_analyst "string option"
  | Set_fee_paid "string option"
  | Set_fee_waiver_requested "bool option"
  | Set_fee_waiver_granted "bool option"
  | Set_request_text "string option"
  | Set_response_summary "string option"
  | Set_notes "string option"
  | Set_appeal_filed "bool option"
  | Set_appeal_date "date option"
  | Set_appeal_body "string option"
  | Set_appeal_outcome "string option"
  | Other string

fun setattr :: "FOIARequest \<Rightarrow> field_update \<Rightarrow> FOIARequest" where
  "setattr req (Set_id v) = req\<lparr>id_pk := v\<rparr>"
| "setattr req (Set_reference_id v) = req\<lparr>reference_id := v\<rparr>"
| "setattr req (Set_agency v) = req\<lparr>agency := v\<rparr>"
| "setattr req (Set_agency_key v) = req\<lparr>agency_key := v\<rparr>"
| "setattr req (Set_jurisdiction v) = req\<lparr>jurisdiction := v\<rparr>"
| "setattr req (Set_topic v) = req\<lparr>topic := v\<rparr>"
| "setattr req (Set_date_created v) = req\<lparr>date_created := v\<rparr>"
| "setattr req (Set_date_filed v) = req\<lparr>date_filed := v\<rparr>"
| "setattr req (Set_deadline v) = req\<lparr>deadline := v\<rparr>"
| "setattr req (Set_date_acknowledged v) = req\<lparr>date_acknowledged := v\<rparr>"
| "setattr req (Set_date_extended v) = req\<lparr>date_extended := v\<rparr>"
| "setattr req (Set_extended_deadline v) = req\<lparr>extended_deadline := v\<rparr>"
| "setattr req (Set_date_response v) = req\<lparr>date_response := v\<rparr>"
| "setattr req (Set_docs_received v) = req\<lparr>docs_received := v\<rparr>"
| "setattr req (Set_pages_received v) = req\<lparr>pages_received := v\<rparr>"
| "setattr req (Set_pages_withheld v) = req\<lparr>pages_withheld := v\<rparr>"
| "setattr req (Set_exemptions_cited v) = req\<lparr>exemptions_cited := v\<rparr>"
| "setattr req (Set_filing_method v) = req\<lparr>filing_method := v\<rparr>"
| "setattr req (Set_confirmation_number v) = req\<lparr>confirmation_number := v\<rparr>"
| "setattr req (Set_assigned_analyst v) = req\<lparr>assigned_analyst := v\<rparr>"
| "setattr req (Set_fee_paid v) = req\<lparr>fee_paid := v\<rparr>"
| "setattr req (Set_fee_waiver_requested v) = req\<lparr>fee_waiver_requested := v\<rparr>"
| "setattr req (Set_fee_waiver_granted v) = req\<lparr>fee_waiver_granted := v\<rparr>"
| "setattr req (Set_request_text v) = req\<lparr>request_text := v\<rparr>"
| "setattr req (Set_response_summary v) = req\<lparr>response_summary := v\<rparr>"
| "setattr req (Set_notes v) = req\<lparr>notes_col := v\<rparr>"
| "setattr req (Set_appeal_filed v) = req\<lparr>appeal_filed := v\<rparr>"
| "setattr req (Set_appeal_date v) = req\<lparr>appeal_date := v\<rparr>"
| "setattr req (Set_appeal_body v) = req\<lparr>appeal_body := v\<rparr>"
| "setattr req (Set_appeal_outcome v) = req\<lparr>appeal_outcome := v\<rparr>"
| "setattr req (Other key) = req"

text \<open>
  \<^verbatim>\<open>TrackerDB.update_status\<close>: the result is the error raised, or the table after the
  call with the value returned.
\<close>

definition update_status ::
  "db \<Rightarrow> int \<Rightarrow> RequestStatus \<Rightarrow> field_update list \<Rightarrow> error + (db \<times> FOIARequest option)" where
  "update_status rows request_id new_status kwargs =
     (case session_get rows request_id of
        Inl e \<Rightarrow> Inl e
      | Inr None \<Rightarrow> Inr (rows, None)
      | Inr (Some req) \<Rightarrow>
          (let req' = foldl setattr (req\<lparr>status := new_status\<rparr>) kwargs
           in case commit rows req req' of
                Inl e \<Rightarrow> Inl e
              | Inr rows' \<Rightarrow> Inr (rows', Some req')))"

text \<open>
  \<^verbatim>\<open>TrackerDB.record_response\<close>, with \<^verbatim>\<open>date.today()\<close> as the argument \<open>today\<close>;
  \<^verbatim>\<open>date_response or date.today()\<close> is the date given unless it is \<^verbatim>\<open>None\<close>.
\<close>

definition record_response ::
  "db \<Rightarrow> date \<Rightarrow> int \<Rightarrow> int \<Rightarrow> int \<Rightarrow> int \<Rightarrow> string \<Rightarrow> string \<Rightarrow> date option \<Rightarrow>
     error + (db \<times> FOIARequest option)" where
  "record_response rows today request_id docs_received_arg pages_received_arg
       pages_withheld_arg exemptions_cited_arg response_summary_arg date_response_arg =
     (case session_get rows request_id of
        Inl e \<Rightarrow> Inl e
      | Inr None \<Rightarrow> Inr (rows, None)
      | Inr (Some req) \<Rightarrow>
          (let req' = req\<lparr> docs_received := Some docs_received_arg,
                           pages_received := Some pages_received_arg,
                           pages_withheld := Some pages_withheld_arg,
                           exemptions_cited := Some exemptions_cited_arg,
                           response_summary := Some response_summary_arg,
                           date_response :=
                             Some (case date_response_arg of Some d \<Rightarrow> d | None \<Rightarrow> today),
                           status := (if pages_withheld_arg > 0 then PARTIAL_RESPONSE
                                      else COMPLETE) \<rparr>
           in case commit rows req req' of
                Inl e \<Rightarrow> Inl e
              | Inr rows' \<Rightarrow> Inr (rows', Some req')))"

text \<open>The keyword arguments that name the primary key or the creation time stamp.\<close>

fun sets_identity :: "field_update \<Rightarrow> bool" where
  "sets_identity (Set_id v) = True"
| "sets_identity (Set_date_created v) = True"
| "sets_identity u = False"

fun sets_reference_id :: "field_update \<Rightarrow> bool" where
  "sets_reference_id (Set_reference_id v) = True"
| "sets_reference_id u = False"

section \<open>The deadline calculator (deadlines.py)\<close>

text \<open>
  The calendar of \<^verbatim>\<open>datetime\<close>: \<open>ord2ymd\<close> follows the standard library's conversion
  of an ordinal to year, month and day, which \<^verbatim>\<open>d.month\<close> and \<^verbatim>\<open>d.day\<close> read.
\<close>

definition DAYS_IN_MONTH :: "int list" where
  "DAYS_IN_MONTH = [- 1, 31, 28, 31, 30, 31, 30, 31, 31, 30, 31, 30, 31]"

definition DAYS_BEFORE_MONTH :: "int list" where
  "DAYS_BEFORE_MONTH = [- 1, 0, 31, 59, 90, 120, 151, 181, 212, 243, 273, 304, 334]"

definition ord2ymd :: "date \<Rightarrow> int \<times> int \<times> int" where
  "ord2ymd ordinal =
     (let n0 = ordinal - 1;
          n400 = n0 div 146097; na = n0 mod 146097;
          n100 = na div 36524; nb = na mod 36524;
          n4 = nb div 1461; nc = nb mod 1461;
          n1 = nc div 365; n = nc mod 365;
          year = n400 * 400 + 1 + n100 * 100 + n4 * 4 + n1
      in if n1 = 4 \<or> n100 = 4 then (year - 1, 12, 31)
         else
           let leapyear = (n1 = 3 \<and> (n4 \<noteq> 24 \<or> n100 = 3));
               month = (n + 50) div 32;
               preceding = DAYS_BEFORE_MONTH ! nat month
                             + (if month > 2 \<and> leapyear then 1 else 0)
           in if preceding > n
              then (year, month - 1,
                    n - (preceding - (DAYS_IN_MONTH ! nat (month - 1)
                                       + (if month - 1 = 2 \<and> leapyear then 1 else 0))) + 1)
              else (year, month, n - preceding + 1))"

definition year_of :: "date \<Rightarrow> int" where
  "year_of d = fst (ord2ymd d)"

definition month_of :: "date \<Rightarrow> int" where
  "month_of d = fst (snd (ord2ymd d))"

definition day_of :: "date \<Rightarrow> int" where
  "day_of d = snd (snd (ord2ymd d))"

definition US_FEDERAL_HOLIDAYS_FIXED :: "(int \<times> int) list" where
  "US_FEDERAL_HOLIDAYS_FIXED = [(1, 1), (6, 19), (7, 4), (11, 11), (12, 25)]"

definition is_us_federal_holiday :: "date \<Rightarrow> bool" where
  "is_us_federal_holiday d =
     (if (month_of d, day_of d) \<in> set US_FEDERAL_HOLIDAYS_FIXED then True
      else if month_of d = 1 \<and> weekday d = 0 \<and> 15 \<le> day_of d \<and> day_of d \<le> 21 then True
      else if month_of d = 2 \<and> weekday d = 0 \<and> 15 \<le> day_of d \<and> day_of d \<le> 21 then True
      else if month_of d = 5 \<and> weekday d = 0 \<and> day_of d \<ge> 25 then True
      else if month_of d = 9 \<and> weekday d = 0 \<and> day_of d \<le> 7 then True
      else if month_of d = 10 \<and> weekday d = 0 \<and> 8 \<le> day_of d \<and> day_of d \<le> 14 then True
      else if month_of d = 11 \<and> weekday d = 3 \<and> 22 \<le> day_of d \<and> day_of d \<le> 28 then True
      else False)"

definition UK_BANK_HOLIDAYS_FIXED :: "(int \<times> int) list" where
  "UK_BANK_HOLIDAYS_FIXED = [(1, 1), (12, 25), (12, 26)]"

definition is_uk_bank_holiday :: "date \<Rightarrow> bool" where
  "is_uk_bank_holiday d =
     (if (month_of d, day_of d) \<in> set UK_BANK_HOLIDAYS_FIXED then True
      else if month_of d = 5 \<and> weekday d = 0 \<and> day_of d \<le> 7 then True
      else if month_of d = 5 \<and> weekday d = 0 \<and> day_of d \<ge> 25 then True
      else if month_of d = 8 \<and> weekday d = 0 \<and> day_of d \<ge> 25 then True
      else False)"

definition is_weekend :: "date \<Rightarrow> bool" where
  "is_weekend d = (weekday d \<ge> 5)"

text \<open>
  \<^verbatim>\<open>holiday_fn and holiday_fn(current)\<close>: no holiday predicate (\<^verbatim>\<open>None\<close>) means no
  holiday.
\<close>

definition holiday_test :: "(date \<Rightarrow> bool) option \<Rightarrow> date \<Rightarrow> bool" where
  "holiday_test holiday_fn d = (case holiday_fn of None \<Rightarrow> False | Some f \<Rightarrow> f d)"

text \<open>
  The loop of \<^verbatim>\<open>add_business_days\<close>, on its variables \<open>current\<close> and \<open>added\<close>. Each
  turn advances \<open>current\<close> by one day, which raises \<^verbatim>\<open>OverflowError\<close> past
  \<^verbatim>\<open>date.max\<close>; so the loop ends.
\<close>

function add_business_days_loop ::
  "(date \<Rightarrow> bool) option \<Rightarrow> int \<Rightarrow> date \<Rightarrow> int \<Rightarrow> error + date" where
  "add_business_days_loop holiday_fn days current added =
     (if added < days then
        (case date_add current 1 of
           Inl e \<Rightarrow> Inl e
         | Inr c \<Rightarrow>
             if is_weekend c then add_business_days_loop holiday_fn days c added
             else if holiday_test holiday_fn c then add_business_days_loop holiday_fn days c added
             else add_business_days_loop holiday_fn days c (added + 1))
      else Inr current)"
  by pat_completeness auto
termination
  by (relation "measure (\<lambda>(holiday_fn, days, current, added). nat (date_max + 1 - current))")
     (auto simp: date_add_def valid_date_def split: if_splits)

declare add_business_days_loop.simps [simp del]

definition add_business_days :: "date \<Rightarrow> int \<Rightarrow> (date \<Rightarrow> bool) option \<Rightarrow> error + date" where
  "add_business_days start days holiday_fn = add_business_days_loop holiday_fn days start 0"

definition add_calendar_days :: "date \<Rightarrow> int \<Rightarrow> error + date" where
  "add_calendar_days start days = date_add start days"

text \<open>
  A rule of \<^verbatim>\<open>JURISDICTION_RULES\<close>: a dictionary with the keys below (\<open>notes_text\<close>
  is the key \<^verbatim>\<open>notes\<close>). A dictionary is an association list in insertion order.
  The two characters that stand before \<^verbatim>\<open>552\<close> in the source file are outside ASCII
  and are written as their UTF-8 bytes.
\<close>

record rule =
  initial_days :: int
  day_type :: string
  holiday_fn :: "(date \<Rightarrow> bool) option"
  extension_days :: int
  extension_type :: string
  notes_text :: string

definition section_mark :: string where
  "section_mark = [CHR 0xE0, CHR 0xB8, CHR 0xA2, CHR 0xE0, CHR 0xB8, CHR 0x87]"

definition JURISDICTION_RULES :: "(string \<times> rule) list" where
  "JURISDICTION_RULES =
     [(''US-Federal'',
       \<lparr> initial_days = 20, day_type = ''business'',
         holiday_fn = Some is_us_federal_holiday,
         extension_days = 10, extension_type = ''business'',
         notes_text = ''5 U.S.C. '' @ section_mark @ '' 552(a)(6)(A)(i): 20 business days. ''
           @ ''Extension of up to 10 additional business days under ''
           @ section_mark @ '' 552(a)(6)(B)(i) for 'unusual circumstances.'' @ [CHR 0x27] \<rparr>),
      (''India'',
       \<lparr> initial_days = 30, day_type = ''calendar'',
         holiday_fn = None,
         extension_days = 0, extension_type = ''calendar'',
         notes_text = ''RTI Act Section 7(1): 30 days from receipt. ''
           @ ''If life/liberty at stake: 48 hours. ''
           @ ''Transfer to another PIO: 5 days for transfer + 30 days.'' \<rparr>),
      (''UK'',
       \<lparr> initial_days = 20, day_type = ''business'',
         holiday_fn = Some is_uk_bank_holiday,
         extension_days = 0, extension_type = ''business'',
         notes_text = ''FOIA 2000 Section 10(1): 20 working days (excludes weekends ''
           @ ''and bank holidays). No statutory extension, but the authority ''
           @ ''may need 'reasonable' additional time for public interest test ''
           @ ''under qualified exemptions (Section 10(3)).'' \<rparr>),
      (''EU'',
       \<lparr> initial_days = 15, day_type = ''business'',
         holiday_fn = None,
         extension_days = 15, extension_type = ''business'',
         notes_text = ''Regulation 1049/2001 Article 7(1): 15 working days. ''
           @ ''Extension of 15 working days under Article 7(3) ''
           @ [CHR 0x27] @ ''in exceptional cases' with reasons given.'' \<rparr>)]"

text \<open>
  \<^verbatim>\<open>DeadlineCalculator.__init__\<close>: the calculator's state is its dictionary \<open>rules\<close>, a
  copy of \<^verbatim>\<open>JURISDICTION_RULES\<close> updated with the custom rules
  (\<^verbatim>\<open>dict.update\<close>: a key already there keeps its place and takes the new value, a new
  key goes last).
\<close>

definition dict_update :: "('k \<times> 'v) list \<Rightarrow> ('k \<times> 'v) list \<Rightarrow> ('k \<times> 'v) list" where
  "dict_update d other = foldl (\<lambda>acc (k, v). AList.update k v acc) d other"

definition DeadlineCalculator_init :: "(string \<times> rule) list option \<Rightarrow> (string \<times> rule) list" where
  "DeadlineCalculator_init custom_rules =
     (case custom_rules of
        None \<Rightarrow> JURISDICTION_RULES
      | Some custom \<Rightarrow> if custom = [] then JURISDICTION_RULES
                       else dict_update JURISDICTION_RULES custom)"

text \<open>\<^verbatim>\<open>sep.join(xs)\<close> and \<^verbatim>\<open>s.startswith(p)\<close>\<close>

fun join :: "string \<Rightarrow> string list \<Rightarrow> string" where
  "join sep [] = []"
| "join sep [x] = x"
| "join sep (x # y # ys) = x @ sep @ join sep (y # ys)"

definition startswith :: "string \<Rightarrow> string \<Rightarrow> bool" where
  "startswith s p = prefix p s"

text \<open>
  \<^verbatim>\<open>DeadlineCalculator._get_rule\<close>, on the dictionary \<open>rules\<close> of the calculator.
\<close>

definition generic_state_rule :: rule where
  "generic_state_rule =
     \<lparr> initial_days = 10, day_type = ''business'',
       holiday_fn = Some is_us_federal_holiday,
       extension_days = 0, extension_type = ''business'',
       notes_text = ''State deadlines vary. Check state-specific rules.'' \<rparr>"

definition get_rule :: "(string \<times> rule) list \<Rightarrow> string \<Rightarrow> error + rule" where
  "get_rule rules jname =
     (case map_of rules jname of
        Some r \<Rightarrow> Inr r
      | None \<Rightarrow>
          if startswith jname ''US-State'' then Inr generic_state_rule
          else Inl (ValueError
                 (''No deadline rules for jurisdiction '' @ [CHR 0x27] @ jname
                    @ [CHR 0x27] @ ''. '' @ ''Known: '' @ join '', '' (map fst rules))))"

text \<open>\<^verbatim>\<open>DeadlineCalculator.calculate\<close> and \<^verbatim>\<open>calculate_extension\<close>\<close>

definition calculate :: "(string \<times> rule) list \<Rightarrow> string \<Rightarrow> date \<Rightarrow> error + date" where
  "calculate rules jname filed_date =
     (case get_rule rules jname of
        Inl e \<Rightarrow> Inl e
      | Inr r \<Rightarrow>
          if day_type r = ''business''
          then add_business_days filed_date (initial_days r) (holiday_fn r)
          else add_calendar_days filed_date (initial_days r))"

definition calculate_extension ::
  "(string \<times> rule) list \<Rightarrow> string \<Rightarrow> date \<Rightarrow> error + date option" where
  "calculate_extension rules jname original_deadline =
     (case get_rule rules jname of
        Inl e \<Rightarrow> Inl e
      | Inr r \<Rightarrow>
          if extension_days r = 0 then Inr None
          else if extension_type r = ''business''
          then map_sum id Some
                 (add_business_days original_deadline (extension_days r) (holiday_fn r))
          else map_sum id Some (add_calendar_days original_deadline (extension_days r)))"

text \<open>
  What the deadline is measured in: a business day is a day that is neither a Saturday or
  Sunday nor a holiday of the rule; \<open>count_business_days h a b\<close> counts the business days
  \<open>d\<close> with \<open>a < d \<le> b\<close>.
\<close>

definition is_business_day :: "(date \<Rightarrow> bool) option \<Rightarrow> date \<Rightarrow> bool" where
  "is_business_day h d = (\<not> is_weekend d \<and> \<not> holiday_test h d)"

definition count_business_days :: "(date \<Rightarrow> bool) option \<Rightarrow> date \<Rightarrow> date \<Rightarrow> nat" where
  "count_business_days h a b = length (filter (is_business_day h) [a + 1..b])"

section \<open>The alert engine (alerts.py)\<close>

text \<open>
  \<^verbatim>\<open>TrackerDB.list_requests\<close>. The case-insensitive pattern match \<^verbatim>\<open>ILIKE\<close> is the
  storage engine's and is the parameter \<open>ilike\<close> (value, pattern). An empty string and
  \<^verbatim>\<open>None\<close> are both falsy, so neither filters. \<^verbatim>\<open>ORDER BY date_created DESC\<close> is
  modelled by a stable sort: rows with equal time stamps keep the table's order.
\<close>

definition list_requests ::
  "(string \<Rightarrow> string \<Rightarrow> bool) \<Rightarrow> db \<Rightarrow> string option \<Rightarrow> RequestStatus option \<Rightarrow>
     string option \<Rightarrow> nat \<Rightarrow> nat \<Rightarrow> FOIARequest list" where
  "list_requests ilike rows jurisdiction_arg status_arg agency_arg limit offset =
     (let q0 = rows;
          q1 = (case jurisdiction_arg of
                  None \<Rightarrow> q0
                | Some j \<Rightarrow> if j = [] then q0 else filter (\<lambda>r. jurisdiction r = j) q0);
          q2 = (case status_arg of
                  None \<Rightarrow> q1
                | Some st \<Rightarrow> filter (\<lambda>r. status r = st) q1);
          q3 = (case agency_arg of
                  None \<Rightarrow> q2
                | Some a \<Rightarrow> if a = [] then q2
                            else filter (\<lambda>r. ilike (agency r) (''%'' @ a @ ''%'')) q2);
          q4 = sort_key (\<lambda>r. - date_created r) q3
      in take limit (drop offset q4))"

datatype AlertSeverity = INFO | WARNING | URGENT | OVERDUE

text \<open>
  The dataclass \<^verbatim>\<open>Alert\<close>. Its fields \<^verbatim>\<open>agency\<close>, \<^verbatim>\<open>jurisdiction\<close>, \<^verbatim>\<open>topic\<close>,
  \<^verbatim>\<open>severity\<close> and \<^verbatim>\<open>deadline\<close> carry the suffix \<open>_a\<close> here, to tell them from the
  fields of the same name of other classes.
\<close>

record Alert =
  request_id :: int
  agency_a :: string
  jurisdiction_a :: string
  topic_a :: string
  severity_a :: AlertSeverity
  message :: string
  days_remaining :: "int option"
  deadline_a :: "date option"
  suggested_action :: string

text \<open>\<^verbatim>\<open>str(n)\<close> of an integer, and \<^verbatim>\<open>date.isoformat()\<close> (\<^verbatim>\<open>%04d-%02d-%02d\<close>).\<close>

definition digit_char :: "nat \<Rightarrow> char" where
  "digit_char n = char_of (48 + n)"

fun str_nat :: "nat \<Rightarrow> string" where
  "str_nat n = (if n < 10 then [digit_char n] else str_nat (n div 10) @ [digit_char (n mod 10)])"

declare str_nat.simps [simp del]

definition str_int :: "int \<Rightarrow> string" where
  "str_int i = (if i < 0 then ''-'' @ str_nat (nat (- i)) else str_nat (nat i))"

definition zero_pad :: "nat \<Rightarrow> int \<Rightarrow> string" where
  "zero_pad width i = replicate (width - length (str_int i)) (CHR ''0'') @ str_int i"

definition isoformat :: "date \<Rightarrow> string" where
  "isoformat d =
     zero_pad 4 (year_of d) @ ''-'' @ zero_pad 2 (month_of d) @ ''-'' @ zero_pad 2 (day_of d)"

definition THRESHOLDS :: "AlertSeverity \<rightharpoonup> int" where
  "THRESHOLDS = [INFO \<mapsto> 10, WARNING \<mapsto> 5, URGENT \<mapsto> 2]"

text \<open>\<^verbatim>\<open>AlertEngine._overdue_action\<close> and \<^verbatim>\<open>AlertEngine._upcoming_action\<close>\<close>

definition overdue_action :: "FOIARequest \<Rightarrow> string" where
  "overdue_action req =
     (if jurisdiction req = ''US-Federal'' then
        ''Send a follow-up letter citing 5 U.S.C. Section 552(a)(6)(A). ''
        @ ''Consider filing an administrative appeal or contacting OGIS ''
        @ ''(ogis@nara.gov). Constructive denial of request may entitle ''
        @ ''you to immediate appeal.''
      else if jurisdiction req = ''India'' then
        ''File a first appeal under Section 19(1) of the RTI Act with ''
        @ ''the First Appellate Authority. The PIO's failure to respond ''
        @ ''within 30 days is deemed a refusal.''
      else if jurisdiction req = ''UK'' then
        ''Send a follow-up citing Section 10(1) of FOIA 2000. ''
        @ ''Request an internal review. If no response within a reasonable ''
        @ ''time, complain to the ICO.''
      else if jurisdiction req = ''EU'' then
        ''The institution's silence after 15 working days constitutes ''
        @ ''an implied refusal. File a confirmatory application under ''
        @ ''Article 7(2) of Regulation 1049/2001.''
      else ''Send a follow-up letter and prepare an appeal.'')"

definition upcoming_action :: "FOIARequest \<Rightarrow> int \<Rightarrow> string" where
  "upcoming_action req days_left =
     (if days_left \<le> 2 then
        ''Prepare appeal materials. Follow up with the agency immediately.''
      else if days_left \<le> 5 then
        ''Send a courtesy follow-up to the FOIA officer inquiring about status.''
      else ''Monitor. No action required yet.'')"

text \<open>
  \<^verbatim>\<open>AlertEngine._check_request\<close>. When \<open>days_left\<close> is not \<^verbatim>\<open>None\<close> the effective
  deadline is a date, so the branch \<open>None\<close> of the case on it is never taken. The case
  on the severity is the chain of comparisons that sets \<^verbatim>\<open>severity\<close> or returns
  \<^verbatim>\<open>None\<close>.
\<close>

definition check_request :: "date \<Rightarrow> FOIARequest \<Rightarrow> Alert option" where
  "check_request today req =
     (case days_until_deadline today req of
        None \<Rightarrow> None
      | Some days_left \<Rightarrow>
         (case effective_deadline req of
            None \<Rightarrow> None
          | Some eff \<Rightarrow>
              if days_left < 0 then
                Some \<lparr> request_id = id_pk req, agency_a = agency req,
                       jurisdiction_a = jurisdiction req, topic_a = topic req,
                       severity_a = OVERDUE,
                       message = ''Response is '' @ str_int \<bar>days_left\<bar> @ '' day(s) overdue. ''
                                 @ ''Deadline was '' @ isoformat eff @ ''.'',
                       days_remaining = Some days_left, deadline_a = Some eff,
                       suggested_action = overdue_action req \<rparr>
              else
                (case (if days_left \<le> the (THRESHOLDS URGENT) then Some URGENT
                       else if days_left \<le> the (THRESHOLDS WARNING) then Some WARNING
                       else if days_left \<le> the (THRESHOLDS INFO) then Some INFO
                       else None) of
                   None \<Rightarrow> None
                 | Some sev \<Rightarrow>
                     Some \<lparr> request_id = id_pk req, agency_a = agency req,
                            jurisdiction_a = jurisdiction req, topic_a = topic req,
                            severity_a = sev,
                            message = ''Deadline in '' @ str_int days_left @ '' day(s) (''
                                      @ isoformat eff @ '').'',
                            days_remaining = Some days_left, deadline_a = Some eff,
                            suggested_action = upcoming_action req days_left \<rparr>)))"

text \<open>
  \<^verbatim>\<open>AlertEngine.check_all\<close>. \<open>scanned\<close> is the sequence of requests the two nested loops
  visit: for each active status in turn, the first 10000 requests of that status, newest
  first. The alerts are then sorted (stably) by severity rank and days remaining.
\<close>

definition active_statuses :: "RequestStatus list" where
  "active_statuses = [FILED, ACKNOWLEDGED, PROCESSING, EXTENDED, APPEALED]"

definition scanned :: "(string \<Rightarrow> string \<Rightarrow> bool) \<Rightarrow> db \<Rightarrow> FOIARequest list" where
  "scanned ilike rows =
     concat (map (\<lambda>st. list_requests ilike rows None (Some st) None 10000 0) active_statuses)"

definition severity_order :: "AlertSeverity \<Rightarrow> int" where
  "severity_order s = (case s of OVERDUE \<Rightarrow> 0 | URGENT \<Rightarrow> 1 | WARNING \<Rightarrow> 2 | INFO \<Rightarrow> 3)"

definition alert_sort_key :: "Alert \<Rightarrow> int \<times> int" where
  "alert_sort_key a =
     (severity_order (severity_a a), (case days_remaining a of None \<Rightarrow> 0 | Some d \<Rightarrow> d))"

definition check_all :: "(string \<Rightarrow> string \<Rightarrow> bool) \<Rightarrow> date \<Rightarrow> db \<Rightarrow> Alert list" where
  "check_all ilike today rows =
     sort_key alert_sort_key (List.map_filter (check_request today) (scanned ilike rows))"

definition check_overdue :: "(string \<Rightarrow> string \<Rightarrow> bool) \<Rightarrow> date \<Rightarrow> db \<Rightarrow> Alert list" where
  "check_overdue ilike today rows =
     filter (\<lambda>a. severity_a a = OVERDUE) (check_all ilike today rows)"

definition check_upcoming ::
  "(string \<Rightarrow> string \<Rightarrow> bool) \<Rightarrow> date \<Rightarrow> db \<Rightarrow> int \<Rightarrow> Alert list" where
  "check_upcoming ilike today rows within_days =
     filter (\<lambda>a. case days_remaining a of
                    None \<Rightarrow> False
                  | Some d \<Rightarrow> 0 < d \<and> d \<le> within_days)
       (check_all ilike today rows)"

section \<open>The response parser (response_parser.py)\<close>

text \<open>
  A Python string is the list of its characters, here code points below 256. The classes
  of \<^verbatim>\<open>re\<close> on such characters: \<^verbatim>\<open>\d\<close> is \<^verbatim>\<open>0\<close> to \<^verbatim>\<open>9\<close>, and \<^verbatim>\<open>\s\<close> is the
  characters for which \<^verbatim>\<open>str.isspace()\<close> holds.
\<close>

definition is_digit :: "char \<Rightarrow> bool" where
  "is_digit c = (CHR ''0'' \<le> c \<and> c \<le> CHR ''9'')"

definition is_space :: "char \<Rightarrow> bool" where
  "is_space c = (of_char c \<in> set [9, 10, 11, 12, 13, 28, 29, 30, 31, 32, 133, 160 :: nat])"

definition lower_char :: "char \<Rightarrow> char" where
  "lower_char c =
     (if (CHR ''A'' \<le> c \<and> c \<le> CHR ''Z'') \<or>
         (CHR 0xC0 \<le> c \<and> c \<le> CHR 0xDE \<and> c \<noteq> CHR 0xD7)
      then char_of (of_char c + 32 :: nat) else c)"

definition lower :: "string \<Rightarrow> string" where
  "lower s = map lower_char s"

text \<open>
  \<^verbatim>\<open>re.findall(pattern, text)\<close> for a pattern that matches no empty string. A pattern
  is given by its matcher: applied to the text from some position on, it returns what
  \<^verbatim>\<open>findall\<close> reports for a match that starts there (the text matched, or the text of the
  one group) and the length of the match. The scan goes from left to right and resumes
  after each match.
\<close>

fun findall :: "(string \<Rightarrow> (string \<times> nat) option) \<Rightarrow> string \<Rightarrow> string list" where
  "findall m [] = []"
| "findall m (c # cs) =
     (case m (c # cs) of
        None \<Rightarrow> findall m cs
      | Some (x, n) \<Rightarrow> x # findall m (drop (n - 1) cs))"

text \<open>The optional part \<^verbatim>\<open>(?:\([A-F]\))?\<close>; with \<^verbatim>\<open>re.IGNORECASE\<close> also \<^verbatim>\<open>a\<close> to \<^verbatim>\<open>f\<close>.\<close>

definition is_A_to_F :: "bool \<Rightarrow> char \<Rightarrow> bool" where
  "is_A_to_F ignorecase c =
     ((CHR ''A'' \<le> c \<and> c \<le> CHR ''F'') \<or>
      (ignorecase \<and> CHR ''a'' \<le> c \<and> c \<le> CHR ''f''))"

fun letter_suffix :: "bool \<Rightarrow> string \<Rightarrow> string" where
  "letter_suffix ignorecase (p # l # q # rest) =
     (if p = CHR ''('' \<and> is_A_to_F ignorecase l \<and> q = CHR '')'' then [p, l, q] else [])"
| "letter_suffix ignorecase s = []"

text \<open>The pattern \<^verbatim>\<open>\(b\)\(\d\)(?:\([A-F]\))?\<close>\<close>

fun match_b_citation :: "string \<Rightarrow> (string \<times> nat) option" where
  "match_b_citation (c1 # c2 # c3 # c4 # d # c5 # rest) =
     (if [c1, c2, c3, c4] = ''(b)('' \<and> is_digit d \<and> c5 = CHR '')''
      then Some ([c1, c2, c3, c4, d, c5] @ letter_suffix False rest,
                 6 + length (letter_suffix False rest))
      else None)"
| "match_b_citation s = None"

text \<open>
  The pattern \<^verbatim>\<open>Exemption\s+(\d(?:\([A-F]\))?)\<close> with \<^verbatim>\<open>re.IGNORECASE\<close>; the group
  is the digit with the optional letter part.
\<close>

definition match_exemption :: "string \<Rightarrow> (string \<times> nat) option" where
  "match_exemption s =
     (if lower (take 9 s) = ''exemption'' then
        (let ws = takeWhile is_space (drop 9 s);
             rest = dropWhile is_space (drop 9 s)
         in case rest of
              [] \<Rightarrow> None
            | d # rest' \<Rightarrow>
                if ws \<noteq> [] \<and> is_digit d
                then Some (d # letter_suffix True rest',
                           9 + length ws + 1 + length (letter_suffix True rest'))
                else None)
      else None)"

text \<open>The pattern \<^verbatim>\<open>[Ss]ection\s+(\d{1,2})\<close>\<close>

definition match_section_prefix :: "string \<Rightarrow> (string \<times> nat) option" where
  "match_section_prefix s =
     (case s of
        [] \<Rightarrow> None
      | c # cs \<Rightarrow>
          if (c = CHR ''S'' \<or> c = CHR ''s'') \<and> take 6 cs = ''ection''
             \<and> takeWhile is_space (drop 6 cs) \<noteq> []
          then Some (dropWhile is_space (drop 6 cs),
                     7 + length (takeWhile is_space (drop 6 cs)))
          else None)"

definition match_uk_section :: "string \<Rightarrow> (string \<times> nat) option" where
  "match_uk_section s =
     (case match_section_prefix s of
        None \<Rightarrow> None
      | Some (rest, n) \<Rightarrow>
          (case rest of
             [] \<Rightarrow> None
           | d # rest' \<Rightarrow>
               if is_digit d then
                 (case rest' of
                    [] \<Rightarrow> Some ([d], n + 1)
                  | e # rest'' \<Rightarrow> if is_digit e then Some ([d, e], n + 2) else Some ([d], n + 1))
               else None))"

text \<open>The pattern \<^verbatim>\<open>[Ss]ection\s+8\(1\)\(([a-j])\)\<close>\<close>

definition match_india_section :: "string \<Rightarrow> (string \<times> nat) option" where
  "match_india_section s =
     (case match_section_prefix s of
        None \<Rightarrow> None
      | Some (rest, n) \<Rightarrow>
          if take 5 rest = ''8(1)('' then
            (case drop 5 rest of
               l # q # rest' \<Rightarrow>
                 if CHR ''a'' \<le> l \<and> l \<le> CHR ''j'' \<and> q = CHR '')'' then Some ([l], n + 7)
                 else None
             | _ \<Rightarrow> None)
          else None)"

text \<open>
  \<^verbatim>\<open>ResponseParser._extract_exemptions\<close>. \<^verbatim>\<open>sorted(set(matches))\<close> is the sorted list
  of the distinct matches, in the order of strings by code points. \<open>append_new\<close> is one turn
  of the loop over the \<^verbatim>\<open>Exemption N\<close> matches.
\<close>

definition is_us_jurisdiction :: "string \<Rightarrow> bool" where
  "is_us_jurisdiction j = (j \<in> set [''US-Federal''] \<or> startswith j ''US-State'')"

definition append_new :: "string list \<Rightarrow> string \<Rightarrow> string list" where
  "append_new exemptions_acc m =
     (let formatted = ''(b)('' @ m @ '')''
      in if formatted \<notin> set exemptions_acc then exemptions_acc @ [formatted]
         else exemptions_acc)"

definition extract_exemptions :: "string \<Rightarrow> string \<Rightarrow> string list" where
  "extract_exemptions text_arg j =
     (if is_us_jurisdiction j then
        foldl append_new (sort (remdups (findall match_b_citation text_arg)))
          (findall match_exemption text_arg)
      else if j = ''UK'' then
        map (\<lambda>m. ''Section '' @ m) (sort (remdups (findall match_uk_section text_arg)))
      else if j = ''India'' then
        map (\<lambda>m. ''Section 8(1)('' @ m @ '')'')
          (sort (remdups (findall match_india_section text_arg)))
      else [])"

section \<open>The redaction detector (redaction_detector.py)\<close>

text \<open>
  A Python \<^verbatim>\<open>float\<close> is modelled by the rational number it stands for: the weights
  \<^verbatim>\<open>0.4\<close>, \<^verbatim>\<open>0.2\<close>, \<^verbatim>\<open>0.1\<close> are \<open>2/5\<close>, \<open>1/5\<close>, \<open>1/10\<close>, sums and quotients are
  exact, and the rounding of binary floating point is not modelled. Characters outside
  ASCII in the source's string literals are written as their UTF-8 bytes.
\<close>

text \<open>The dataclass \<^verbatim>\<open>ParsedResponse\<close> (response_parser.py), the detector's input.\<close>

record ParsedResponse =
  determination :: string
  determination_text :: string
  pages_released :: int
  pages_withheld_full :: int
  pages_withheld_partial :: int
  pages_referred :: int
  documents_released :: int
  documents_withheld :: int
  exemptions :: "string list"
  exemption_details :: "(string \<times> string) list"
  fee_charged :: "rat option"
  fee_waiver_granted_p :: "bool option"
  assigned_analyst_p :: string
  tracking_number :: string
  response_date :: string
  appeal_deadline :: string
  appeal_address :: string
  raw_text :: string

record RedactionFlag =
  severity :: string
  category :: string
  description :: string
  recommendation :: string
  exemption :: "string option"

record RedactionReport =
  flags :: "RedactionFlag list"
  risk_score :: rat
  summary :: string
  appeal_recommended :: bool


text \<open>\<^verbatim>\<open>weights.get(f.severity, 0.1)\<close>\<close>

definition weights :: "(string \<times> rat) list" where
  "weights = [(''high'', 2 / 5), (''medium'', 1 / 5), (''low'', 1 / 10)]"

definition weight :: "RedactionFlag \<Rightarrow> rat" where
  "weight f = (case map_of weights (severity f) of Some w \<Rightarrow> w | None \<Rightarrow> 1 / 10)"

text \<open>\<^verbatim>\<open>RedactionReport._recalculate_score\<close> and \<^verbatim>\<open>RedactionReport.add_flag\<close>\<close>

definition recalculate_score :: "RedactionReport \<Rightarrow> RedactionReport" where
  "recalculate_score report =
     (if flags report = [] then report\<lparr>risk_score := 0\<rparr>
      else
        (let total_arg = sum_list (map weight (flags report))
         in report\<lparr> risk_score := min 1 total_arg,
                     appeal_recommended := (min 1 total_arg \<ge> 3 / 10) \<rparr>))"

definition add_flag :: "RedactionReport \<Rightarrow> RedactionFlag \<Rightarrow> RedactionReport" where
  "add_flag report flag = recalculate_score (report\<lparr>flags := flags report @ [flag]\<rparr>)"































section \<open>Overdue requests\<close>

text \<open>
  C1. \<open>is_overdue\<close> is false in each of the four terminal statuses, whatever the dates, and
  false when the effective deadline is absent; otherwise it is true exactly when the
  effective deadline is strictly before today. \<open>get_overdue\<close> returns exactly the rows
  for which \<open>is_overdue\<close> is true.
\<close>

theorem is_overdue_spec:
  "is_overdue today r =
     (status r \<noteq> COMPLETE \<and> status r \<noteq> DENIED \<and> status r \<noteq> WITHDRAWN \<and>
      status r \<noteq> NO_RESPONSIVE_RECORDS \<and>
      (\<exists>d. effective_deadline r = Some d \<and> d < today))
   \<and> get_overdue today rows = filter (is_overdue today) rows"
proof
  show "is_overdue today r =
     (status r \<noteq> COMPLETE \<and> status r \<noteq> DENIED \<and> status r \<noteq> WITHDRAWN \<and>
      status r \<noteq> NO_RESPONSIVE_RECORDS \<and>
      (\<exists>d. effective_deadline r = Some d \<and> d < today))"
    by (auto simp: is_overdue_def split: option.splits)
next
  have "\<And>x. (status x \<notin> set terminal \<and>
            ((extended_deadline x \<noteq> None \<and> sql_lt (extended_deadline x) today) \<or>
             (extended_deadline x = None \<and> deadline x \<noteq> None \<and> sql_lt (deadline x) today)))
          = is_overdue today x"
    by (auto simp: is_overdue_def effective_deadline_def terminal_def sql_lt_def
             split: option.splits)
  then show "get_overdue today rows = filter (is_overdue today) rows"
    by (simp add: get_overdue_def)
qed

theorem is_overdue_spec_witness:
  "is_overdue 739000 (example_request\<lparr>deadline := Some 738990\<rparr>)
   \<and> \<not> is_overdue 739000 (example_request\<lparr>deadline := Some 738990, status := COMPLETE\<rparr>)
   \<and> \<not> is_overdue 739000 example_request
   \<and> get_overdue 739000
         [example_request\<lparr>deadline := Some 738990\<rparr>,
          example_request\<lparr>deadline := Some 738990, status := COMPLETE\<rparr>,
          example_request]
       = [example_request\<lparr>deadline := Some 738990\<rparr>]"
  using is_overdue_spec [of 739000 "example_request\<lparr>deadline := Some 738990\<rparr>"
      "[example_request\<lparr>deadline := Some 738990\<rparr>,
        example_request\<lparr>deadline := Some 738990, status := COMPLETE\<rparr>,
        example_request]"]
  by (simp add: is_overdue_def effective_deadline_def example_request_def)

text \<open>
  C2. When \<open>extended_deadline\<close> is set, \<open>is_overdue\<close>, \<open>days_until_deadline\<close> and
  \<open>get_overdue\<close> are computed from it and do not depend on \<open>deadline\<close> (which may be
  earlier or later); when it is absent they are computed from \<open>deadline\<close>.
\<close>

theorem extended_deadline_precedence:
  "(extended_deadline r = Some e \<longrightarrow>
      is_overdue today r = (status r \<notin> set terminal \<and> e < today) \<and>
      days_until_deadline today r = Some (e - today) \<and>
      is_overdue today (r\<lparr>deadline := dl\<rparr>) = is_overdue today r \<and>
      days_until_deadline today (r\<lparr>deadline := dl\<rparr>) = days_until_deadline today r \<and>
      get_overdue today [r\<lparr>deadline := dl\<rparr>] =
        (if status r \<notin> set terminal \<and> e < today then [r\<lparr>deadline := dl\<rparr>] else []))
   \<and> (extended_deadline r = None \<longrightarrow>
      is_overdue today r =
        (status r \<notin> set terminal \<and> (\<exists>d. deadline r = Some d \<and> d < today)) \<and>
      days_until_deadline today r = map_option (\<lambda>d. d - today) (deadline r) \<and>
      get_overdue today [r] =
        (if status r \<notin> set terminal \<and> (\<exists>d. deadline r = Some d \<and> d < today)
         then [r] else []))"
  by (auto simp: is_overdue_def days_until_deadline_def effective_deadline_def
        get_overdue_def sql_lt_def terminal_def split: option.splits)

theorem extended_deadline_precedence_witness:
  "\<not> is_overdue 739000
       (example_request\<lparr>deadline := Some 738990, extended_deadline := Some 739005\<rparr>)
   \<and> days_until_deadline 739000
       (example_request\<lparr>deadline := Some 738990, extended_deadline := Some 739005\<rparr>) = Some 5
   \<and> is_overdue 739000 (example_request\<lparr>deadline := Some 738990\<rparr>)
   \<and> days_until_deadline 739000 (example_request\<lparr>deadline := Some 738990\<rparr>) = Some (- 10)"
  using extended_deadline_precedence
      [of "example_request\<lparr>deadline := Some 738990, extended_deadline := Some 739005\<rparr>"
          739005 739000 "Some 738990"]
    extended_deadline_precedence
      [of "example_request\<lparr>deadline := Some 738990\<rparr>" 0 739000 None]
  by (simp add: example_request_def terminal_def)

section \<open>Business-day deadlines\<close>

lemma date_add_one: "date_add c 1 = Inr c' \<Longrightarrow> c' = c + 1 \<and> c + 1 \<le> date_max \<and> 0 \<le> c"
  by (auto simp: date_add_def valid_date_def date_min_def split: if_splits)

lemma date_add_one_Inl: "date_add c 1 = Inl e \<Longrightarrow> e = OverflowError \<and> \<not> valid_date (c + 1)"
  by (auto simp: date_add_def split: if_splits)

lemma count_business_days_step:
  "a < b \<Longrightarrow> count_business_days h a b =
     (if is_business_day h (a + 1) then 1 else 0) + count_business_days h (a + 1) b"
  by (simp add: count_business_days_def upto_rec1 [of "a + 1" b])

lemma count_business_days_empty: "b \<le> a \<Longrightarrow> count_business_days h a b = 0"
  by (simp add: count_business_days_def)

lemma add_business_days_loop_done:
  "\<not> added < days \<Longrightarrow> add_business_days_loop h days current added = Inr current"
  by (subst add_business_days_loop.simps) simp

lemma add_business_days_loop_result:
  "add_business_days_loop h days current added = Inr d \<Longrightarrow> added < days \<Longrightarrow>
     current < d \<and> d \<le> date_max \<and> is_business_day h d \<and>
     int (count_business_days h current d) = days - added"
proof (induction h days current added rule: add_business_days_loop.induct)
  case (1 h days current added)
  from "1.prems" obtain c where c: "date_add current 1 = Inr c"
    by (subst (asm) add_business_days_loop.simps) (auto split: sum.splits)
  then have c1: "c = current + 1" "c \<le> date_max" using date_add_one by auto
  show ?case
  proof (cases "is_business_day h c")
    case False
    then have rec: "add_business_days_loop h days c added = Inr d"
      using "1.prems" c
      by (subst (asm) add_business_days_loop.simps)
         (auto simp: is_business_day_def split: if_splits)
    have "c < d \<and> d \<le> date_max \<and> is_business_day h d \<and>
          int (count_business_days h c d) = days - added"
    proof (cases "is_weekend c")
      case True
      show ?thesis by (rule "1.IH"(1) [OF "1.prems"(2) c True rec "1.prems"(2)])
    next
      case nw: False
      then have hol: "holiday_test h c" using False by (simp add: is_business_day_def)
      show ?thesis by (rule "1.IH"(2) [OF "1.prems"(2) c nw hol rec "1.prems"(2)])
    qed
    then show ?thesis using c1 False
      by (simp add: count_business_days_step [of current d])
  next
    case True
    then have nw: "\<not> is_weekend c" and nh: "\<not> holiday_test h c"
      by (simp_all add: is_business_day_def)
    have rec: "add_business_days_loop h days c (added + 1) = Inr d"
      using "1.prems" c nw nh
      by (subst (asm) add_business_days_loop.simps) auto
    show ?thesis
    proof (cases "added + 1 < days")
      case lt: True
      have "c < d \<and> d \<le> date_max \<and> is_business_day h d \<and>
          int (count_business_days h c d) = days - (added + 1)"
        by (rule "1.IH"(3) [OF "1.prems"(2) c nw nh rec lt])
      then show ?thesis using c1 True
        by (simp add: count_business_days_step [of current d])
    next
      case ge: False
      then have "d = c" using rec add_business_days_loop_done [of "added + 1" days h c] by simp
      moreover have "count_business_days h current (current + 1) = 1"
        using True c1 by (simp add: count_business_days_def)
      ultimately show ?thesis using c1 True ge "1.prems"(2) by simp
    qed
  qed
qed

lemma add_business_days_loop_returns:
  "0 \<le> current \<Longrightarrow> days - added \<le> int (count_business_days h current date_max) \<Longrightarrow>
     \<exists>d. add_business_days_loop h days current added = Inr d"
proof (induction h days current added rule: add_business_days_loop.induct)
  case (1 h days current added)
  show ?case
  proof (cases "added < days")
    case False
    then show ?thesis using add_business_days_loop_done by blast
  next
    case lt: True
    then have pos: "0 < count_business_days h current date_max" using "1.prems" by linarith
    then have cur: "current < date_max"
      using count_business_days_empty [of date_max current h] by (cases "current < date_max") auto
    then have c: "date_add current 1 = Inr (current + 1)"
      using "1.prems"(1) by (simp add: date_add_def valid_date_def date_min_def)
    have step: "count_business_days h current date_max =
       (if is_business_day h (current + 1) then 1 else 0) + count_business_days h (current + 1) date_max"
      using cur by (rule count_business_days_step)
    have nn: "0 \<le> current + 1" using "1.prems"(1) by simp
    show ?thesis
    proof (cases "is_weekend (current + 1)")
      case True
      then have "\<not> is_business_day h (current + 1)" by (simp add: is_business_day_def)
      then have "days - added \<le> int (count_business_days h (current + 1) date_max)"
        using step "1.prems"(2) by simp
      from "1.IH"(1) [OF lt c True nn this]
      show ?thesis using lt c True by (subst add_business_days_loop.simps) simp
    next
      case nw: False
      show ?thesis
      proof (cases "holiday_test h (current + 1)")
        case True
        then have "\<not> is_business_day h (current + 1)" by (simp add: is_business_day_def)
        then have "days - added \<le> int (count_business_days h (current + 1) date_max)"
          using step "1.prems"(2) by simp
        from "1.IH"(2) [OF lt c nw True nn this]
        show ?thesis using lt c nw True by (subst add_business_days_loop.simps) simp
      next
        case nh: False
        then have "is_business_day h (current + 1)" using nw by (simp add: is_business_day_def)
        then have "days - (added + 1) \<le> int (count_business_days h (current + 1) date_max)"
          using step "1.prems"(2) by simp
        from "1.IH"(3) [OF lt c nw nh nn this]
        show ?thesis using lt c nw nh by (subst add_business_days_loop.simps) simp
      qed
    qed
  qed
qed

lemma add_business_days_loop_overflow:
  "add_business_days_loop h days current added = Inl e \<Longrightarrow> e = OverflowError"
proof (induction h days current added rule: add_business_days_loop.induct)
  case (1 h days current added)
  then show ?case
    by (subst (asm) (3) add_business_days_loop.simps)
       (auto split: if_splits sum.splits dest: date_add_one_Inl)
qed

lemma count_business_days_mono:
  "b \<le> b' \<Longrightarrow> count_business_days h a b \<le> count_business_days h a b'"
proof (cases "a + 1 \<le> b")
  case True
  assume "b \<le> b'"
  with True have "[a + 1..b'] = [a + 1..b] @ [b + 1..b']"
    by (rule upto_split2)
  then show ?thesis by (simp add: count_business_days_def)
next
  case False
  then show ?thesis by (simp add: count_business_days_def)
qed

lemma add_business_days_loop_cases:
  assumes "0 \<le> current" and "added < days"
  shows "if days - added \<le> int (count_business_days h current date_max)
         then \<exists>d. add_business_days_loop h days current added = Inr d \<and>
                current < d \<and> d \<le> date_max \<and> is_business_day h d \<and>
                int (count_business_days h current d) = days - added
         else add_business_days_loop h days current added = Inl OverflowError"
proof (cases "days - added \<le> int (count_business_days h current date_max)")
  case True
  then obtain d where d: "add_business_days_loop h days current added = Inr d"
    using add_business_days_loop_returns [OF assms(1)] by blast
  from add_business_days_loop_result [OF d assms(2)] d True show ?thesis by simp
next
  case False
  have "add_business_days_loop h days current added = Inl OverflowError"
  proof (cases "add_business_days_loop h days current added")
    case (Inl e)
    then show ?thesis using add_business_days_loop_overflow by blast
  next
    case (Inr d)
    from add_business_days_loop_result [OF Inr assms(2)]
    have "d \<le> date_max" and "int (count_business_days h current d) = days - added"
      by simp_all
    then have "days - added \<le> int (count_business_days h current date_max)"
      using count_business_days_mono [of d date_max h current] by simp
    with False show ?thesis by simp
  qed
  with False show ?thesis by simp
qed

lemma count_business_days_antimono:
  "a \<le> a' \<Longrightarrow> count_business_days h a' b \<le> count_business_days h a b"
proof (cases "a' + 1 \<le> b")
  case True
  assume "a \<le> a'"
  then have "[a + 1..b] = [a + 1..a'] @ [a' + 1..b]"
    using True upto_split2 [of "a + 1" a' b] by (cases "a = a'") simp_all
  then show ?thesis by (simp add: count_business_days_def)
next
  case False
  then show ?thesis by (simp add: count_business_days_def)
qed

lemma default_rules_business:
  assumes "get_rule (DeadlineCalculator_init None) j = Inr r" and "day_type r = ''business''"
  shows "initial_days r \<le> 20 \<and>
         (holiday_fn r = Some is_us_federal_holiday \<or> holiday_fn r = Some is_uk_bank_holiday
          \<or> holiday_fn r = None)"
  using assms
  by (auto simp: get_rule_def DeadlineCalculator_init_def JURISDICTION_RULES_def
        generic_state_rule_def split: if_splits option.splits)

lemma last_month_us:
  "20 \<le> count_business_days (Some is_us_federal_holiday) (date_max - 31) date_max"
  by code_simp

lemma last_month_uk:
  "20 \<le> count_business_days (Some is_uk_bank_holiday) (date_max - 31) date_max"
  by code_simp

lemma last_month_none:
  "20 \<le> count_business_days None (date_max - 31) date_max"
  by code_simp

lemma default_rules_enough_days:
  assumes "get_rule (DeadlineCalculator_init None) j = Inr r" and "day_type r = ''business''"
    and "filed \<le> date_max - 31"
  shows "initial_days r \<le> int (count_business_days (holiday_fn r) filed date_max)"
proof -
  from default_rules_business [OF assms(1,2)]
  have n: "initial_days r \<le> 20"
    and h: "holiday_fn r = Some is_us_federal_holiday \<or> holiday_fn r = Some is_uk_bank_holiday
          \<or> holiday_fn r = None"
    by simp_all
  have "20 \<le> count_business_days (holiday_fn r) (date_max - 31) date_max"
    using h last_month_us last_month_uk last_month_none by auto
  also have "\<dots> \<le> count_business_days (holiday_fn r) filed date_max"
    using assms(3) by (rule count_business_days_antimono)
  finally show ?thesis using n by simp
qed

text \<open>
  C3 (as amended). For a jurisdiction that resolves to a rule with counting mode
  \<open>business\<close> and initial period \<open>N \<ge> 1\<close>, and a filing date: when at least \<open>N\<close> business
  days lie after the filing date and up to \<^verbatim>\<open>date.max\<close>, \<open>calculate\<close> returns a deadline
  after the filing date that is neither a Saturday or Sunday nor a holiday of the rule, and
  exactly \<open>N\<close> business days lie after the filing date and up to the deadline; otherwise
  \<open>calculate\<close> raises \<^verbatim>\<open>OverflowError\<close>. With the built-in rules, every filing date up
  to 9999-11-30 (31 days before \<^verbatim>\<open>date.max\<close>) has that many business days after it.
\<close>

theorem calculate_business_deadline:
  assumes "get_rule rules j = Inr r"
    and "day_type r = ''business''"
    and "1 \<le> initial_days r"
    and "valid_date filed"
  shows "(if initial_days r \<le> int (count_business_days (holiday_fn r) filed date_max)
          then \<exists>d. calculate rules j filed = Inr d \<and>
                 filed < d \<and> valid_date d \<and>
                 \<not> is_weekend d \<and> \<not> holiday_test (holiday_fn r) d \<and>
                 int (count_business_days (holiday_fn r) filed d) = initial_days r
          else calculate rules j filed = Inl OverflowError)
       \<and> (rules = DeadlineCalculator_init None \<and> filed \<le> date_max - 31 \<longrightarrow>
            initial_days r \<le> int (count_business_days (holiday_fn r) filed date_max))"
proof
  have calc: "calculate rules j filed =
      add_business_days_loop (holiday_fn r) (initial_days r) filed 0"
    using assms(1,2) by (simp add: calculate_def add_business_days_def)
  have nn: "0 \<le> filed" and pos: "0 < initial_days r"
    using assms(3,4) by (simp_all add: valid_date_def date_min_def)
  from add_business_days_loop_cases [OF nn pos, of "holiday_fn r"] nn
  show "if initial_days r \<le> int (count_business_days (holiday_fn r) filed date_max)
          then \<exists>d. calculate rules j filed = Inr d \<and>
                 filed < d \<and> valid_date d \<and>
                 \<not> is_weekend d \<and> \<not> holiday_test (holiday_fn r) d \<and>
                 int (count_business_days (holiday_fn r) filed d) = initial_days r
          else calculate rules j filed = Inl OverflowError"
    unfolding calc by (auto simp: is_business_day_def valid_date_def date_min_def)
next
  show "rules = DeadlineCalculator_init None \<and> filed \<le> date_max - 31 \<longrightarrow>
            initial_days r \<le> int (count_business_days (holiday_fn r) filed date_max)"
    using default_rules_enough_days [of j r filed] assms(1,2) by blast
qed

theorem calculate_business_deadline_witness:
  "calculate (DeadlineCalculator_init None) ''US-Federal'' 739662 = Inr 739691
   \<and> 20 \<le> int (count_business_days (Some is_us_federal_holiday) 739662 date_max)
   \<and> count_business_days (Some is_us_federal_holiday) 739662 739691 = 20
   \<and> is_us_federal_holiday 739663
   \<and> weekday 739691 = 0"
proof -
  have r: "get_rule (DeadlineCalculator_init None) ''US-Federal'' =
      Inr \<lparr> initial_days = 20, day_type = ''business'',
         holiday_fn = Some is_us_federal_holiday,
         extension_days = 10, extension_type = ''business'',
         notes_text = ''5 U.S.C. '' @ section_mark @ '' 552(a)(6)(A)(i): 20 business days. ''
           @ ''Extension of up to 10 additional business days under ''
           @ section_mark @ '' 552(a)(6)(B)(i) for 'unusual circumstances.'' @ [CHR 0x27] \<rparr>"
    by (simp add: get_rule_def DeadlineCalculator_init_def JURISDICTION_RULES_def)
  have v: "valid_date 739662"
    by (simp add: valid_date_def date_min_def date_max_def)
  have c: "calculate (DeadlineCalculator_init None) ''US-Federal'' 739662 = Inr 739691"
    by code_simp
  have h: "is_us_federal_holiday 739663"
    by code_simp
  from calculate_business_deadline [OF r _ _ v] c h
  show ?thesis by (auto simp: weekday_def split: if_splits)
qed

theorem calculate_business_deadline_counterexample:
  "valid_date 3652055
   \<and> (\<exists>r. get_rule (DeadlineCalculator_init None) ''EU'' = Inr r \<and>
          day_type r = ''business'' \<and> initial_days r = 15)
   \<and> calculate (DeadlineCalculator_init None) ''EU'' 3652055 = Inl OverflowError"
proof -
  have "valid_date 3652055"
    by (simp add: valid_date_def date_min_def date_max_def)
  moreover have "\<exists>r. get_rule (DeadlineCalculator_init None) ''EU'' = Inr r \<and>
          day_type r = ''business'' \<and> initial_days r = 15"
    by (simp add: get_rule_def DeadlineCalculator_init_def JURISDICTION_RULES_def)
  moreover have "calculate (DeadlineCalculator_init None) ''EU'' 3652055 = Inl OverflowError"
    by code_simp
  ultimately show ?thesis by simp
qed

section \<open>Resolving a jurisdiction to its rule\<close>

lemma sublist_join: "k \<in> set xs \<Longrightarrow> sublist k (join sep xs)"
proof (induction sep xs rule: join.induct)
  case (1 sep)
  then show ?case by simp
next
  case (2 sep x)
  then show ?case by simp
next
  case (3 sep x y ys)
  show ?case
  proof (cases "k = x")
    case True
    then show ?thesis by simp
  next
    case False
    with 3 have "sublist k (join sep (y # ys))" by simp
    then obtain ps ss where "join sep (y # ys) = ps @ k @ ss"
      by (auto simp: sublist_def)
    then have "join sep (x # y # ys) = (x @ sep @ ps) @ k @ ss" by simp
    then show ?thesis unfolding sublist_def by blast
  qed
qed

lemma sublist_in_message: "sublist k m \<Longrightarrow> sublist k (p @ m)"
proof -
  assume "sublist k m"
  then obtain ps ss where "m = ps @ k @ ss" by (auto simp: sublist_def)
  then have "p @ m = (p @ ps) @ k @ ss" by simp
  then show ?thesis unfolding sublist_def by blast
qed

text \<open>
  C7. \<open>get_rule\<close> returns the registered rule on an exact match; failing that, a string
  that starts with \<^verbatim>\<open>US-State\<close> resolves to the generic rule of 10 business days with
  the US holiday calendar and no extension; any other string fails with the error whose
  message is \<^verbatim>\<open>No deadline rules for jurisdiction '...'. Known: ...\<close>, which names
  every registered jurisdiction.
\<close>

theorem get_rule_resolution:
  "(map_of rules j = Some r \<longrightarrow> get_rule rules j = Inr r)
   \<and> (map_of rules j = None \<and> startswith j ''US-State'' \<longrightarrow>
        (\<exists>g. get_rule rules j = Inr g \<and> initial_days g = 10 \<and> day_type g = ''business'' \<and>
             holiday_fn g = Some is_us_federal_holiday \<and> extension_days g = 0) \<and>
        calculate_extension rules j d = Inr None)
   \<and> (map_of rules j = None \<and> \<not> startswith j ''US-State'' \<longrightarrow>
        (\<exists>msg. get_rule rules j = Inl (ValueError msg) \<and>
               msg = ''No deadline rules for jurisdiction '' @ [CHR 0x27] @ j @ [CHR 0x27]
                       @ ''. Known: '' @ join '', '' (map fst rules) \<and>
               (\<forall>k \<in> set (map fst rules). sublist k msg) \<and>
               calculate rules j d = Inl (ValueError msg) \<and>
               calculate_extension rules j d = Inl (ValueError msg)))"
proof (intro conjI impI)
  assume "map_of rules j = Some r"
  then show "get_rule rules j = Inr r" by (simp add: get_rule_def)
next
  assume a: "map_of rules j = None \<and> startswith j ''US-State''"
  then have g: "get_rule rules j = Inr generic_state_rule" by (simp add: get_rule_def)
  then show "\<exists>g. get_rule rules j = Inr g \<and> initial_days g = 10 \<and> day_type g = ''business'' \<and>
             holiday_fn g = Some is_us_federal_holiday \<and> extension_days g = 0"
    by (simp add: generic_state_rule_def)
  from g show "calculate_extension rules j d = Inr None"
    by (simp add: calculate_extension_def generic_state_rule_def)
next
  assume a: "map_of rules j = None \<and> \<not> startswith j ''US-State''"
  define msg where "msg = ''No deadline rules for jurisdiction '' @ [CHR 0x27] @ j @ [CHR 0x27]
                       @ ''. Known: '' @ join '', '' (map fst rules)"
  have g: "get_rule rules j = Inl (ValueError msg)"
    using a by (simp add: get_rule_def msg_def)
  have names: "\<forall>k \<in> set (map fst rules). sublist k msg"
  proof
    fix k assume "k \<in> set (map fst rules)"
    then have "sublist k (join '', '' (map fst rules))" by (rule sublist_join)
    then have "sublist k ((''No deadline rules for jurisdiction '' @ [CHR 0x27] @ j @ [CHR 0x27]
                       @ ''. Known: '') @ join '', '' (map fst rules))"
      by (rule sublist_in_message)
    then show "sublist k msg" by (simp add: msg_def)
  qed
  have "calculate rules j d = Inl (ValueError msg)"
    and "calculate_extension rules j d = Inl (ValueError msg)"
    using g by (simp_all add: calculate_def calculate_extension_def)
  with g names show "\<exists>msg. get_rule rules j = Inl (ValueError msg) \<and>
               msg = ''No deadline rules for jurisdiction '' @ [CHR 0x27] @ j @ [CHR 0x27]
                       @ ''. Known: '' @ join '', '' (map fst rules) \<and>
               (\<forall>k \<in> set (map fst rules). sublist k msg) \<and>
               calculate rules j d = Inl (ValueError msg) \<and>
               calculate_extension rules j d = Inl (ValueError msg)"
    unfolding msg_def by blast
qed

theorem get_rule_resolution_witness:
  "map_option initial_days (map_of (DeadlineCalculator_init None) ''UK'') = Some 20
   \<and> (\<exists>r. get_rule (DeadlineCalculator_init None) ''UK'' = Inr r \<and> initial_days r = 20)
   \<and> (\<exists>g. get_rule (DeadlineCalculator_init None) ''US-State-IA'' = Inr g \<and>
          initial_days g = 10 \<and> day_type g = ''business'')
   \<and> get_rule (DeadlineCalculator_init None) ''Mars'' =
       Inl (ValueError
         (''No deadline rules for jurisdiction 'Mars'. Known: US-Federal, India, UK, EU''))"
proof -
  have uk: "map_of (DeadlineCalculator_init None) ''UK'' =
      Some (snd (DeadlineCalculator_init None ! 2))"
    by (simp add: DeadlineCalculator_init_def JURISDICTION_RULES_def)
  have ia: "map_of (DeadlineCalculator_init None) ''US-State-IA'' = None \<and>
      startswith ''US-State-IA'' ''US-State''"
    by (simp add: DeadlineCalculator_init_def JURISDICTION_RULES_def startswith_def)
  have mars: "map_of (DeadlineCalculator_init None) ''Mars'' = None \<and>
      \<not> startswith ''Mars'' ''US-State''"
    by (simp add: DeadlineCalculator_init_def JURISDICTION_RULES_def startswith_def)
  have keys: "map fst (DeadlineCalculator_init None) = [''US-Federal'', ''India'', ''UK'', ''EU'']"
    by (simp add: DeadlineCalculator_init_def JURISDICTION_RULES_def)
  have d: "initial_days (snd (DeadlineCalculator_init None ! 2)) = 20"
    by (simp add: DeadlineCalculator_init_def JURISDICTION_RULES_def)
  from get_rule_resolution [of "DeadlineCalculator_init None" "''UK''"
        "snd (DeadlineCalculator_init None ! 2)" 0] uk d
  have 1: "\<exists>r. get_rule (DeadlineCalculator_init None) ''UK'' = Inr r \<and> initial_days r = 20"
    by simp
  from get_rule_resolution [of "DeadlineCalculator_init None" "''US-State-IA''" undefined 0] ia
  have 2: "\<exists>g. get_rule (DeadlineCalculator_init None) ''US-State-IA'' = Inr g \<and>
          initial_days g = 10 \<and> day_type g = ''business''"
    by auto
  from get_rule_resolution [of "DeadlineCalculator_init None" "''Mars''" undefined 0] mars
  have 3: "get_rule (DeadlineCalculator_init None) ''Mars'' =
       Inl (ValueError
         (''No deadline rules for jurisdiction 'Mars'. Known: US-Federal, India, UK, EU''))"
    unfolding keys by simp
  from 1 2 3 uk d show ?thesis by simp
qed

section \<open>Alerts\<close>

lemma list_requests_by_status:
  "set (list_requests ilike rows None (Some st) None limit 0) \<subseteq> {r \<in> set rows. status r = st}"
proof -
  have "set (take limit (sort_key (\<lambda>r. - date_created r) (filter (\<lambda>r. status r = st) rows)))
          \<subseteq> set (sort_key (\<lambda>r. - date_created r) (filter (\<lambda>r. status r = st) rows))"
    by (rule set_take_subset)
  then show ?thesis by (auto simp: list_requests_def)
qed

lemma list_requests_all:
  assumes "length (filter (\<lambda>r. status r = st) rows) \<le> limit"
  shows "set (list_requests ilike rows None (Some st) None limit 0) = {r \<in> set rows. status r = st}"
proof -
  have "length (sort_key (\<lambda>r. - date_created r) (filter (\<lambda>r. status r = st) rows)) \<le> limit"
    using assms by simp
  then have "take limit (sort_key (\<lambda>r. - date_created r) (filter (\<lambda>r. status r = st) rows))
      = sort_key (\<lambda>r. - date_created r) (filter (\<lambda>r. status r = st) rows)"
    by (rule take_all)
  then show ?thesis by (auto simp: list_requests_def)
qed

lemma scanned_active:
  "r \<in> set (scanned ilike rows) \<Longrightarrow> r \<in> set rows \<and> status r \<in> set active_statuses"
  using list_requests_by_status by (fastforce simp: scanned_def)

lemma scanned_all:
  assumes "length (filter (\<lambda>x. status x = status r) rows) \<le> 10000"
  shows "(r \<in> set (scanned ilike rows)) = (r \<in> set rows \<and> status r \<in> set active_statuses)"
proof
  assume "r \<in> set (scanned ilike rows)"
  then show "r \<in> set rows \<and> status r \<in> set active_statuses" by (rule scanned_active)
next
  assume a: "r \<in> set rows \<and> status r \<in> set active_statuses"
  then have "r \<in> set (list_requests ilike rows None (Some (status r)) None 10000 0)"
    using list_requests_all [OF assms] by simp
  with a show "r \<in> set (scanned ilike rows)" by (auto simp: scanned_def)
qed

lemma severity_of_days:
  "(if days_left \<le> the (THRESHOLDS URGENT) then Some URGENT
    else if days_left \<le> the (THRESHOLDS WARNING) then Some WARNING
    else if days_left \<le> the (THRESHOLDS INFO) then Some INFO
    else None) =
   (if days_left \<le> 2 then Some URGENT
    else if days_left \<le> 5 then Some WARNING
    else if days_left \<le> 10 then Some INFO
    else None)"
  by (simp add: THRESHOLDS_def)

lemma check_request_no_deadline:
  "effective_deadline r = None \<Longrightarrow> check_request today r = None"
  by (simp add: check_request_def days_until_deadline_def)

lemma check_request_overdue:
  assumes "effective_deadline r = Some d" and "d - today < 0"
  shows "\<exists>a. check_request today r = Some a \<and> severity_a a = OVERDUE \<and>
           days_remaining a = Some (d - today) \<and> deadline_a a = Some d \<and>
           request_id a = id_pk r"
  using assms by (simp add: check_request_def days_until_deadline_def)

lemma check_request_upcoming:
  assumes "effective_deadline r = Some d" and "\<not> d - today < 0" and "d - today \<le> 10"
  shows "\<exists>a. check_request today r = Some a \<and>
           severity_a a = (if d - today \<le> 2 then URGENT
                         else if d - today \<le> 5 then WARNING else INFO) \<and>
           days_remaining a = Some (d - today) \<and> deadline_a a = Some d \<and>
           request_id a = id_pk r"
  using assms
  by (simp add: check_request_def days_until_deadline_def severity_of_days)

lemma check_request_far:
  assumes "effective_deadline r = Some d" and "\<not> d - today \<le> 10"
  shows "check_request today r = None"
  using assms
  by (simp add: check_request_def days_until_deadline_def severity_of_days)

lemma check_request_None:
  "(check_request today r = None) = (\<not> (\<exists>d. effective_deadline r = Some d \<and> d - today \<le> 10))"
proof (cases "effective_deadline r")
  case None
  then show ?thesis using check_request_no_deadline by simp
next
  case (Some d)
  show ?thesis
  proof (cases "d - today \<le> 10")
    case False
    then show ?thesis using Some check_request_far by simp
  next
    case True
    then have "\<exists>a. check_request today r = Some a"
      using check_request_overdue [OF Some] check_request_upcoming [OF Some]
      by (cases "d - today < 0") blast+
    then show ?thesis using Some True by auto
  qed
qed

lemma check_request_Some:
  assumes "check_request today r = Some a"
  shows "\<exists>d. effective_deadline r = Some d \<and> d - today \<le> 10 \<and>
           days_remaining a = Some (d - today) \<and> deadline_a a = Some d \<and>
           request_id a = id_pk r \<and>
           severity_a a = (if d - today < 0 then OVERDUE
                         else if d - today \<le> 2 then URGENT
                         else if d - today \<le> 5 then WARNING
                         else INFO)"
proof -
  from assms check_request_None [of today r]
  obtain d where d: "effective_deadline r = Some d" "d - today \<le> 10" by auto
  show ?thesis
  proof (cases "d - today < 0")
    case True
    from check_request_overdue [OF d(1) True] assms d True show ?thesis by auto
  next
    case False
    from check_request_upcoming [OF d(1) False d(2)] assms d False show ?thesis by auto
  qed
qed

lemma set_map_filter_Some:
  "set (List.map_filter f xs) = {y. \<exists>x \<in> set xs. f x = Some y}"
  by (induction xs) (auto split: option.splits)

lemma set_check_all:
  "set (check_all ilike today rows) =
     {a. \<exists>r \<in> set (scanned ilike rows). check_request today r = Some a}"
  by (simp add: check_all_def set_map_filter_Some)

text \<open>
  C4. \<open>check_all\<close> returns exactly the alerts of the requests it scans, and a scanned
  request is a stored request in one of the five active statuses (every such request is
  scanned when at most 10000 requests share its status). A request yields an alert if and
  only if its effective deadline is defined and at most 10 days remain; the severity is
  \<open>OVERDUE\<close> below 0 days, \<open>URGENT\<close> from 0 to 2, \<open>WARNING\<close> from 3 to 5 and \<open>INFO\<close> from
  6 to 10.
\<close>

theorem check_all_alerts:
  "set (check_all ilike today rows) =
     {a. \<exists>r \<in> set (scanned ilike rows). check_request today r = Some a}
   \<and> (r \<in> set (scanned ilike rows) \<longrightarrow>
        r \<in> set rows \<and> status r \<in> set [FILED, ACKNOWLEDGED, PROCESSING, EXTENDED, APPEALED])
   \<and> (length (filter (\<lambda>x. status x = status r) rows) \<le> 10000 \<and> r \<in> set rows \<and>
        status r \<in> set [FILED, ACKNOWLEDGED, PROCESSING, EXTENDED, APPEALED] \<longrightarrow>
        r \<in> set (scanned ilike rows))
   \<and> (check_request today r \<noteq> None) =
        (\<exists>d. effective_deadline r = Some d \<and> d - today \<le> 10)
   \<and> (\<forall>a. check_request today r = Some a \<longrightarrow>
        (\<exists>d. effective_deadline r = Some d \<and> days_until_deadline today r = Some (d - today) \<and>
             days_remaining a = Some (d - today) \<and> request_id a = id_pk r \<and>
             severity_a a = (if d - today < 0 then OVERDUE
                           else if d - today \<le> 2 then URGENT
                           else if d - today \<le> 5 then WARNING
                           else INFO)))"
proof (intro conjI impI allI)
  show "set (check_all ilike today rows) =
     {a. \<exists>r \<in> set (scanned ilike rows). check_request today r = Some a}"
    by (rule set_check_all)
next
  assume "r \<in> set (scanned ilike rows)"
  from scanned_active [OF this] show "r \<in> set rows"
    and "status r \<in> set [FILED, ACKNOWLEDGED, PROCESSING, EXTENDED, APPEALED]"
    by (simp_all add: active_statuses_def)
next
  assume a: "length (filter (\<lambda>x. status x = status r) rows) \<le> 10000 \<and> r \<in> set rows \<and>
        status r \<in> set [FILED, ACKNOWLEDGED, PROCESSING, EXTENDED, APPEALED]"
  then have "length (filter (\<lambda>x. status x = status r) rows) \<le> 10000" by simp
  from scanned_all [OF this, of ilike] a show "r \<in> set (scanned ilike rows)"
    by (simp add: active_statuses_def)
next
  show "(check_request today r \<noteq> None) =
        (\<exists>d. effective_deadline r = Some d \<and> d - today \<le> 10)"
    using check_request_None [of today r] by simp
next
  fix a assume "check_request today r = Some a"
  from check_request_Some [OF this]
  obtain d where d: "effective_deadline r = Some d" "days_remaining a = Some (d - today)"
    "request_id a = id_pk r"
    "severity_a a = (if d - today < 0 then OVERDUE
                           else if d - today \<le> 2 then URGENT
                           else if d - today \<le> 5 then WARNING
                           else INFO)"
    by blast
  have "days_until_deadline today r = Some (d - today)"
    using d(1) by (simp add: days_until_deadline_def)
  with d
  show "\<exists>d. effective_deadline r = Some d \<and> days_until_deadline today r = Some (d - today) \<and>
             days_remaining a = Some (d - today) \<and> request_id a = id_pk r \<and>
             severity_a a = (if d - today < 0 then OVERDUE
                           else if d - today \<le> 2 then URGENT
                           else if d - today \<le> 5 then WARNING
                           else INFO)"
    by blast
qed

theorem check_all_alerts_witness:
  "map (\<lambda>a. (request_id a, severity_a a, days_remaining a))
     (check_all (\<lambda>v p. True) 739000
        [example_request\<lparr>deadline := Some 739001\<rparr>,
         example_request\<lparr>id_pk := 2, deadline := Some 738995, status := COMPLETE\<rparr>,
         example_request\<lparr>id_pk := 3, deadline := Some 738997, status := PROCESSING\<rparr>,
         example_request\<lparr>id_pk := 4\<rparr>,
         example_request\<lparr>id_pk := 5, deadline := Some 739020\<rparr>,
         example_request\<lparr>id_pk := 6, deadline := Some 739008, status := APPEALED\<rparr>])
   = [(3, OVERDUE, Some (- 3)), (1, URGENT, Some 1), (6, INFO, Some 8)]
   \<and> example_request\<lparr>deadline := Some 739001\<rparr>
       \<in> set (scanned (\<lambda>v p. True)
                [example_request\<lparr>deadline := Some 739001\<rparr>,
                 example_request\<lparr>id_pk := 2, deadline := Some 738995, status := COMPLETE\<rparr>])
   \<and> example_request\<lparr>id_pk := 2, deadline := Some 738995, status := COMPLETE\<rparr>
       \<notin> set (scanned (\<lambda>v p. True)
                [example_request\<lparr>deadline := Some 739001\<rparr>,
                 example_request\<lparr>id_pk := 2, deadline := Some 738995, status := COMPLETE\<rparr>])
   \<and> (\<exists>a. check_request 739000 (example_request\<lparr>deadline := Some 739001\<rparr>) = Some a \<and>
          severity_a a = URGENT \<and> days_remaining a = Some 1)
   \<and> check_request 739000 (example_request\<lparr>deadline := Some 739020\<rparr>) = None"
proof -
  let ?r1 = "example_request\<lparr>deadline := Some 739001\<rparr>"
  let ?r2 = "example_request\<lparr>id_pk := 2, deadline := Some 738995, status := COMPLETE\<rparr>"
  let ?r5 = "example_request\<lparr>deadline := Some 739020\<rparr>"
  have 1: "map (\<lambda>a. (request_id a, severity_a a, days_remaining a))
     (check_all (\<lambda>v p. True) 739000
        [example_request\<lparr>deadline := Some 739001\<rparr>,
         example_request\<lparr>id_pk := 2, deadline := Some 738995, status := COMPLETE\<rparr>,
         example_request\<lparr>id_pk := 3, deadline := Some 738997, status := PROCESSING\<rparr>,
         example_request\<lparr>id_pk := 4\<rparr>,
         example_request\<lparr>id_pk := 5, deadline := Some 739020\<rparr>,
         example_request\<lparr>id_pk := 6, deadline := Some 739008, status := APPEALED\<rparr>])
   = [(3, OVERDUE, Some (- 3)), (1, URGENT, Some 1), (6, INFO, Some 8)]"
    by code_simp
  have e1: "effective_deadline ?r1 = Some 739001" and e5: "effective_deadline ?r5 = Some 739020"
    and s1: "status ?r1 = FILED" and s2: "status ?r2 = COMPLETE"
    by (simp_all add: effective_deadline_def example_request_def)
  from check_all_alerts [of "\<lambda>v p. True" 739000 "[?r1, ?r2]" ?r1] s1 s2
  have 2: "?r1 \<in> set (scanned (\<lambda>v p. True) [?r1, ?r2])"
    by simp
  from check_all_alerts [of "\<lambda>v p. True" 739000 "[?r1, ?r2]" ?r2] s2
  have 3: "?r2 \<notin> set (scanned (\<lambda>v p. True) [?r1, ?r2])"
    by auto
  from check_all_alerts [of "\<lambda>v p. True" 739000 "[]" ?r1] e1
  have 4: "\<exists>a. check_request 739000 ?r1 = Some a \<and>
          severity_a a = URGENT \<and> days_remaining a = Some 1"
    by auto
  from check_all_alerts [of "\<lambda>v p. True" 739000 "[]" ?r5] e5
  have 5: "check_request 739000 ?r5 = None"
    by auto
  from 1 2 3 4 5 show ?thesis by blast
qed

section \<open>Recording a response and updating the status\<close>

lemma session_get_Some:
  "session_get rows i = Inr (Some r) \<Longrightarrow> id_pk r = i \<and> r \<in> set rows \<and> sqlite_int_ok i"
  by (auto simp: session_get_def find_Some_iff split: if_splits)

lemma session_get_replace:
  "session_get rows i = Inr (Some old) \<Longrightarrow> id_pk new = i \<Longrightarrow>
     session_get (map (\<lambda>r. if id_pk r = i then new else r) rows) i = Inr (Some new)"
proof -
  assume a: "session_get rows i = Inr (Some old)" and n: "id_pk new = i"
  from a have ok: "sqlite_int_ok i" and f: "find (\<lambda>r. id_pk r = i) rows = Some old"
    by (auto simp: session_get_def split: if_splits)
  from f n have "find (\<lambda>r. id_pk r = i) (map (\<lambda>r. if id_pk r = i then new else r) rows)
      = Some new"
    by (induction rows) (auto split: if_splits)
  with ok show ?thesis by (simp add: session_get_def)
qed

lemma no_unique_violation:
  "id_pk new = id_pk old \<Longrightarrow> reference_id new = reference_id old \<Longrightarrow>
     \<not> unique_violation rows old new"
  by (simp add: unique_violation_def list_ex_iff)

lemma setattr_identity:
  "\<not> sets_identity u \<Longrightarrow>
     id_pk (setattr req u) = id_pk req \<and> date_created (setattr req u) = date_created req"
  by (cases u) simp_all

lemma setattr_status: "status (setattr req u) = status req"
  by (cases u) simp_all

lemma setattr_reference_id:
  "\<not> sets_reference_id u \<Longrightarrow> reference_id (setattr req u) = reference_id req"
  by (cases u) simp_all

lemma foldl_setattr_identity:
  "\<not> list_ex sets_identity kwargs \<Longrightarrow>
     id_pk (foldl setattr req kwargs) = id_pk req \<and>
     date_created (foldl setattr req kwargs) = date_created req"
  by (induction kwargs arbitrary: req) (simp_all add: setattr_identity)

lemma foldl_setattr_status: "status (foldl setattr req kwargs) = status req"
  by (induction kwargs arbitrary: req) (simp_all add: setattr_status)

lemma foldl_setattr_reference_id:
  "\<not> list_ex sets_reference_id kwargs \<Longrightarrow>
     reference_id (foldl setattr req kwargs) = reference_id req"
  by (induction kwargs arbitrary: req) (simp_all add: setattr_reference_id)

text \<open>
  C5 (as amended). For a request id that is stored and counts \<open>docs_received\<close>,
  \<open>pages_received\<close>, \<open>pages_withheld\<close> within the store's signed 64-bit integer range,
  \<open>record_response\<close> returns the request and leaves it stored with status
  \<open>PARTIAL_RESPONSE\<close> when \<open>pages_withheld > 0\<close> and \<open>COMPLETE\<close> when \<open>pages_withheld = 0\<close>,
  whatever its status was. With a count outside that range (and not the stored one) the
  call raises \<^verbatim>\<open>OverflowError\<close> and stores nothing. For an id within the range that is not
  stored it returns \<^verbatim>\<open>None\<close> and the table is unchanged; an id outside the range raises
  \<^verbatim>\<open>OverflowError\<close>.
\<close>

theorem record_response_status:
  "(session_get rows i = Inr None \<longrightarrow>
      record_response rows today i docs pr pw ex sm dr = Inr (rows, None))
   \<and> (session_get rows i = Inr (Some req) \<and>
      sqlite_int_ok docs \<and> sqlite_int_ok pr \<and> sqlite_int_ok pw \<longrightarrow>
      (\<exists>rows' req'. record_response rows today i docs pr pw ex sm dr = Inr (rows', Some req') \<and>
         session_get rows' i = Inr (Some req') \<and>
         (0 < pw \<longrightarrow> status req' = PARTIAL_RESPONSE) \<and>
         (pw = 0 \<longrightarrow> status req' = COMPLETE) \<and>
         pages_withheld req' = Some pw \<and> id_pk req' = i))
   \<and> (session_get rows i = Inr (Some req) \<and>
      ((docs_received req \<noteq> Some docs \<and> \<not> sqlite_int_ok docs) \<or>
       (pages_received req \<noteq> Some pr \<and> \<not> sqlite_int_ok pr) \<or>
       (pages_withheld req \<noteq> Some pw \<and> \<not> sqlite_int_ok pw)) \<longrightarrow>
      record_response rows today i docs pr pw ex sm dr = Inl OverflowError)
   \<and> (\<not> sqlite_int_ok i \<longrightarrow>
      record_response rows today i docs pr pw ex sm dr = Inl OverflowError)"
proof (intro conjI impI)
  assume "session_get rows i = Inr None"
  then show "record_response rows today i docs pr pw ex sm dr = Inr (rows, None)"
    by (simp add: record_response_def)
next
  assume a: "session_get rows i = Inr (Some req) \<and>
      sqlite_int_ok docs \<and> sqlite_int_ok pr \<and> sqlite_int_ok pw"
  then have get: "session_get rows i = Inr (Some req)" by simp
  define req' where "req' = req\<lparr> docs_received := Some docs,
                           pages_received := Some pr,
                           pages_withheld := Some pw,
                           exemptions_cited := Some ex,
                           response_summary := Some sm,
                           date_response := Some (case dr of Some d \<Rightarrow> d | None \<Rightarrow> today),
                           status := (if pw > 0 then PARTIAL_RESPONSE else COMPLETE) \<rparr>"
  define rows' where "rows' = map (\<lambda>r. if id_pk r = i then req' else r) rows"
  have i: "id_pk req = i" using session_get_Some [OF get] by simp
  have same: "id_pk req' = id_pk req" "reference_id req' = reference_id req"
    by (simp_all add: req'_def)
  have no: "\<not> int_overflow req req'"
    using a by (simp add: int_overflow_def int_column_ok_def req'_def)
  have "commit rows req req' = Inr rows'"
    using no_unique_violation [OF same] no i by (simp add: commit_def rows'_def)
  then have res: "record_response rows today i docs pr pw ex sm dr = Inr (rows', Some req')"
    using get by (simp add: record_response_def req'_def Let_def)
  have stored: "session_get rows' i = Inr (Some req')"
    unfolding rows'_def using get same(1) i by (intro session_get_replace) simp_all
  have "(0 < pw \<longrightarrow> status req' = PARTIAL_RESPONSE) \<and> (pw = 0 \<longrightarrow> status req' = COMPLETE) \<and>
        pages_withheld req' = Some pw \<and> id_pk req' = i"
    using i by (simp add: req'_def)
  with res stored
  show "\<exists>rows' req'. record_response rows today i docs pr pw ex sm dr = Inr (rows', Some req') \<and>
         session_get rows' i = Inr (Some req') \<and>
         (0 < pw \<longrightarrow> status req' = PARTIAL_RESPONSE) \<and>
         (pw = 0 \<longrightarrow> status req' = COMPLETE) \<and>
         pages_withheld req' = Some pw \<and> id_pk req' = i"
    by blast
next
  assume a: "session_get rows i = Inr (Some req) \<and>
      ((docs_received req \<noteq> Some docs \<and> \<not> sqlite_int_ok docs) \<or>
       (pages_received req \<noteq> Some pr \<and> \<not> sqlite_int_ok pr) \<or>
       (pages_withheld req \<noteq> Some pw \<and> \<not> sqlite_int_ok pw))"
  define req' where "req' = req\<lparr> docs_received := Some docs,
                           pages_received := Some pr,
                           pages_withheld := Some pw,
                           exemptions_cited := Some ex,
                           response_summary := Some sm,
                           date_response := Some (case dr of Some d \<Rightarrow> d | None \<Rightarrow> today),
                           status := (if pw > 0 then PARTIAL_RESPONSE else COMPLETE) \<rparr>"
  have "int_overflow req req'"
    using a by (auto simp: int_overflow_def int_column_ok_def req'_def)
  then have "commit rows req req' = Inl OverflowError" by (simp add: commit_def)
  then show "record_response rows today i docs pr pw ex sm dr = Inl OverflowError"
    using a by (simp add: record_response_def req'_def Let_def)
next
  assume "\<not> sqlite_int_ok i"
  then show "record_response rows today i docs pr pw ex sm dr = Inl OverflowError"
    by (simp add: record_response_def session_get_def)
qed

theorem record_response_status_witness:
  "map_sum id (\<lambda>res. map_option status (snd res))
     (record_response [example_request\<lparr>status := APPEALED\<rparr>] 739000 1
        3 40 12 ''(b)(5)'' ''partial'' None) = Inr (Some PARTIAL_RESPONSE)
   \<and> map_sum id (\<lambda>res. map_option status (snd res))
     (record_response [example_request\<lparr>status := DENIED\<rparr>] 739000 1
        3 40 0 [] ''complete'' (Some 738999)) = Inr (Some COMPLETE)
   \<and> record_response [example_request] 739000 7 3 40 12 [] [] None
       = Inr ([example_request], None)
   \<and> record_response [example_request] 739000 1 3 (- (2 ^ 64)) 12 [] [] None
       = Inl OverflowError
   \<and> record_response [example_request] 739000 (2 ^ 63) 3 40 12 [] [] None
       = Inl OverflowError"
proof -
  have a: "session_get [example_request\<lparr>status := APPEALED\<rparr>] 1 =
      Inr (Some (example_request\<lparr>status := APPEALED\<rparr>))"
    and b: "session_get [example_request\<lparr>status := DENIED\<rparr>] 1 =
      Inr (Some (example_request\<lparr>status := DENIED\<rparr>))"
    and c: "session_get [example_request] 7 = Inr None"
    and d: "session_get [example_request] 1 = Inr (Some example_request)"
    by (simp_all add: session_get_def sqlite_int_ok_def example_request_def)
  have ok: "sqlite_int_ok 3" "sqlite_int_ok 40" "sqlite_int_ok 12" "sqlite_int_ok 0"
    "\<not> sqlite_int_ok (- (2 ^ 64))" "\<not> sqlite_int_ok (2 ^ 63)"
    by (simp_all add: sqlite_int_ok_def)
  have p: "pages_received example_request \<noteq> Some (- (2 ^ 64))"
    by (simp add: example_request_def)
  from record_response_status
      [of "[example_request\<lparr>status := APPEALED\<rparr>]" 1 739000 3 40 12 "''(b)(5)''"
          "''partial''" None "example_request\<lparr>status := APPEALED\<rparr>"] a ok
  have 1: "map_sum id (\<lambda>res. map_option status (snd res))
     (record_response [example_request\<lparr>status := APPEALED\<rparr>] 739000 1
        3 40 12 ''(b)(5)'' ''partial'' None) = Inr (Some PARTIAL_RESPONSE)"
    by auto
  from record_response_status
      [of "[example_request\<lparr>status := DENIED\<rparr>]" 1 739000 3 40 0 "[]"
          "''complete''" "Some 738999" "example_request\<lparr>status := DENIED\<rparr>"] b ok
  have 2: "map_sum id (\<lambda>res. map_option status (snd res))
     (record_response [example_request\<lparr>status := DENIED\<rparr>] 739000 1
        3 40 0 [] ''complete'' (Some 738999)) = Inr (Some COMPLETE)"
    by auto
  from record_response_status [of "[example_request]" 7 739000 3 40 12 "[]" "[]" None] c
  have 3: "record_response [example_request] 739000 7 3 40 12 [] [] None
       = Inr ([example_request], None)"
    by simp
  from record_response_status
      [of "[example_request]" 1 739000 3 "- (2 ^ 64)" 12 "[]" "[]" None example_request] d ok p
  have 4: "record_response [example_request] 739000 1 3 (- (2 ^ 64)) 12 [] [] None
       = Inl OverflowError"
    by simp
  from record_response_status [of "[example_request]" "2 ^ 63" 739000 3 40 12 "[]" "[]" None] ok
  have 5: "record_response [example_request] 739000 (2 ^ 63) 3 40 12 [] [] None
       = Inl OverflowError"
    by simp
  from 1 2 3 4 5 show ?thesis by simp
qed

theorem record_response_status_counterexample:
  "session_get [example_request] 1 = Inr (Some example_request)
   \<and> (0 :: int) < 2 ^ 63
   \<and> record_response [example_request] 739000 1 0 0 (2 ^ 63) [] [] None = Inl OverflowError"
proof -
  have a: "session_get [example_request] 1 = Inr (Some example_request)"
    by (simp add: session_get_def sqlite_int_ok_def example_request_def)
  have "int_overflow example_request
      (example_request\<lparr> docs_received := Some 0, pages_received := Some 0,
         pages_withheld := Some (2 ^ 63), exemptions_cited := Some [],
         response_summary := Some [], date_response := Some 739000,
         status := PARTIAL_RESPONSE \<rparr>)"
    by (simp add: int_overflow_def int_column_ok_def sqlite_int_ok_def example_request_def)
  then have "record_response [example_request] 739000 1 0 0 (2 ^ 63) [] [] None
      = Inl OverflowError"
    using a by (simp add: record_response_def commit_def Let_def)
  with a show ?thesis by simp
qed

text \<open>
  C9 (as amended). For a request id that is stored, any target status and any keyword
  arguments that name neither \<^verbatim>\<open>id\<close> nor \<^verbatim>\<open>date_created\<close>, \<open>update_status\<close> has
  three outcomes. It raises \<^verbatim>\<open>OverflowError\<close> when a keyword argument changes an integer
  column to a value outside the store's signed 64-bit range; otherwise it raises
  \<^verbatim>\<open>IntegrityError\<close> when a keyword argument \<^verbatim>\<open>reference_id\<close> takes a value another
  row holds; in both cases nothing is stored. Otherwise it stores and returns the request
  with the new status and with its id and creation time stamp unchanged, still found under
  the same id.
\<close>

theorem update_status_identity:
  assumes "session_get rows i = Inr (Some req)"
    and "\<not> list_ex sets_identity kwargs"
  shows "(if int_overflow req (foldl setattr (req\<lparr>status := st\<rparr>) kwargs)
          then update_status rows i st kwargs = Inl OverflowError
          else if unique_violation rows req (foldl setattr (req\<lparr>status := st\<rparr>) kwargs)
          then update_status rows i st kwargs = Inl IntegrityError \<and>
               list_ex sets_reference_id kwargs
          else \<exists>rows' req'. update_status rows i st kwargs = Inr (rows', Some req') \<and>
                 id_pk req' = id_pk req \<and> date_created req' = date_created req \<and>
                 status req' = st \<and> session_get rows' i = Inr (Some req'))"
proof -
  define req' where "req' = foldl setattr (req\<lparr>status := st\<rparr>) kwargs"
  have i: "id_pk req = i" using session_get_Some [OF assms(1)] by simp
  have ident: "id_pk req' = id_pk req" "date_created req' = date_created req"
    using foldl_setattr_identity [OF assms(2), of "req\<lparr>status := st\<rparr>"]
    by (simp_all add: req'_def)
  have st: "status req' = st"
    using foldl_setattr_status [of "req\<lparr>status := st\<rparr>" kwargs] by (simp add: req'_def)
  show ?thesis
  proof (cases "int_overflow req req'")
    case True
    then have "update_status rows i st kwargs = Inl OverflowError"
      using assms(1) by (simp add: update_status_def commit_def req'_def Let_def)
    with True show ?thesis by (simp add: req'_def)
  next
    case no: False
    show ?thesis
    proof (cases "unique_violation rows req req'")
      case True
      have "list_ex sets_reference_id kwargs"
      proof (rule ccontr)
        assume "\<not> list_ex sets_reference_id kwargs"
        from foldl_setattr_reference_id [OF this, of "req\<lparr>status := st\<rparr>"]
        have "reference_id req' = reference_id req" by (simp add: req'_def)
        from no_unique_violation [OF ident(1) this] True show False by simp
      qed
      moreover have "update_status rows i st kwargs = Inl IntegrityError"
        using True no assms(1) by (simp add: update_status_def commit_def req'_def Let_def)
      ultimately show ?thesis using True no by (simp add: req'_def)
    next
      case False
      define rows' where "rows' = map (\<lambda>r. if id_pk r = i then req' else r) rows"
      have res: "update_status rows i st kwargs = Inr (rows', Some req')"
        using False no assms(1) i
        by (simp add: update_status_def commit_def req'_def rows'_def Let_def)
      have stored: "session_get rows' i = Inr (Some req')"
        unfolding rows'_def using assms(1) ident(1) i by (intro session_get_replace) simp_all
      from res stored ident st
      have "\<exists>rows' req'. update_status rows i st kwargs = Inr (rows', Some req') \<and>
                 id_pk req' = id_pk req \<and> date_created req' = date_created req \<and>
                 status req' = st \<and> session_get rows' i = Inr (Some req')"
        by blast
      with False no show ?thesis by (simp add: req'_def)
    qed
  qed
qed

theorem update_status_identity_witness:
  "map_sum id (\<lambda>res. map_option (\<lambda>r. (id_pk r, date_created r, status r, date_filed r)) (snd res))
     (update_status [example_request\<lparr>status := DRAFT\<rparr>] 1 FILED
        [Set_date_filed (Some 739000), Other ''nonsense'']) =
   Inr (Some (1, 1000, FILED, Some 739000))
   \<and> update_status [example_request] 1 FILED [Set_docs_received (Some (2 ^ 63))]
       = Inl OverflowError"
proof -
  have a: "session_get [example_request\<lparr>status := DRAFT\<rparr>] 1 =
      Inr (Some (example_request\<lparr>status := DRAFT\<rparr>))"
    and a': "session_get [example_request] 1 = Inr (Some example_request)"
    by (simp_all add: session_get_def sqlite_int_ok_def example_request_def)
  have b: "\<not> list_ex sets_identity [Set_date_filed (Some 739000), Other ''nonsense'']"
    and b': "\<not> list_ex sets_identity [Set_docs_received (Some (2 ^ 63))]"
    by simp_all
  have c: "\<not> unique_violation [example_request\<lparr>status := DRAFT\<rparr>]
      (example_request\<lparr>status := DRAFT\<rparr>)
      (foldl setattr (example_request\<lparr>status := DRAFT, status := FILED\<rparr>)
         [Set_date_filed (Some 739000), Other ''nonsense''])"
    by (simp add: unique_violation_def)
  have o: "\<not> int_overflow (example_request\<lparr>status := DRAFT\<rparr>)
      (foldl setattr (example_request\<lparr>status := DRAFT, status := FILED\<rparr>)
         [Set_date_filed (Some 739000), Other ''nonsense''])"
    by (simp add: int_overflow_def)
  have o': "int_overflow example_request
      (foldl setattr (example_request\<lparr>status := FILED\<rparr>) [Set_docs_received (Some (2 ^ 63))])"
    by (simp add: int_overflow_def int_column_ok_def sqlite_int_ok_def example_request_def)
  have d: "date_filed (foldl setattr (example_request\<lparr>status := DRAFT, status := FILED\<rparr>)
         [Set_date_filed (Some 739000), Other ''nonsense'']) = Some 739000"
    by simp
  from update_status_identity [OF a b, of FILED] c o
  obtain rows' req' where
    r: "update_status [example_request\<lparr>status := DRAFT\<rparr>] 1 FILED
          [Set_date_filed (Some 739000), Other ''nonsense''] = Inr (rows', Some req')"
      "id_pk req' = id_pk (example_request\<lparr>status := DRAFT\<rparr>)"
      "date_created req' = date_created (example_request\<lparr>status := DRAFT\<rparr>)"
      "status req' = FILED"
    by auto
  from r(1) a have "req' = foldl setattr (example_request\<lparr>status := DRAFT, status := FILED\<rparr>)
         [Set_date_filed (Some 739000), Other ''nonsense'']"
    by (simp add: update_status_def Let_def split: sum.splits)
  with d have "date_filed req' = Some 739000" by simp
  with r have 1: "map_sum id
     (\<lambda>res. map_option (\<lambda>r. (id_pk r, date_created r, status r, date_filed r)) (snd res))
     (update_status [example_request\<lparr>status := DRAFT\<rparr>] 1 FILED
        [Set_date_filed (Some 739000), Other ''nonsense'']) =
   Inr (Some (1, 1000, FILED, Some 739000))"
    by (simp add: example_request_def)
  from update_status_identity [OF a' b', of FILED] o'
  have 2: "update_status [example_request] 1 FILED [Set_docs_received (Some (2 ^ 63))]
       = Inl OverflowError"
    by simp
  from 1 2 show ?thesis by simp
qed

theorem update_status_identity_counterexample:
  "session_get [example_request] 1 = Inr (Some example_request)
   \<and> (\<exists>rows' req'. update_status [example_request] 1 FILED [Set_date_created 0]
                      = Inr (rows', Some req') \<and>
                    date_created req' \<noteq> date_created example_request)
   \<and> (\<exists>rows' req'. update_status [example_request] 1 FILED [Set_id 99]
                      = Inr (rows', Some req') \<and>
                    id_pk req' \<noteq> id_pk example_request)"
proof -
  have a: "session_get [example_request] 1 = Inr (Some example_request)"
    by (simp add: session_get_def sqlite_int_ok_def example_request_def)
  have b: "update_status [example_request] 1 FILED [Set_date_created 0]
      = Inr ([example_request\<lparr>status := FILED, date_created := 0\<rparr>],
             Some (example_request\<lparr>status := FILED, date_created := 0\<rparr>))"
    using a
    by (simp add: update_status_def commit_def unique_violation_def int_overflow_def Let_def)
  have c: "update_status [example_request] 1 FILED [Set_id 99]
      = Inr ([example_request\<lparr>status := FILED, id_pk := 99\<rparr>],
             Some (example_request\<lparr>status := FILED, id_pk := 99\<rparr>))"
    using a
    by (simp add: update_status_def commit_def unique_violation_def int_overflow_def
          sqlite_int_ok_def Let_def)
  have d: "date_created (example_request\<lparr>status := FILED, date_created := 0\<rparr>)
             \<noteq> date_created example_request"
    and e: "id_pk (example_request\<lparr>status := FILED, id_pk := 99\<rparr>) \<noteq> id_pk example_request"
    by (simp_all add: example_request_def)
  from a b c d e show ?thesis by blast
qed

section \<open>Exemption citations\<close>

text \<open>
  C8. Claimed: under \<^verbatim>\<open>US-Federal\<close> the list of exemptions is duplicate-free and sorted.
  The code at the text below: the citation \<^verbatim>\<open>Exemption 7(C)\<close> is normalised to
  \<^verbatim>\<open>(b)(7(C))\<close>, not to \<^verbatim>\<open>(b)(7)(C)\<close>, so the exemption that the text cites twice is
  listed twice; and the citations normalised from \<^verbatim>\<open>Exemption N\<close> stand behind the
  sorted ones in the order of the text, so the list is not sorted.
\<close>

theorem extract_exemptions_failing_input:
  "extract_exemptions ''Withheld under (b)(7)(C). See Exemption 7(C) and Exemption 4.''
     ''US-Federal''
     = [''(b)(7)(C)'', ''(b)(7(C))'', ''(b)(4)'']
   \<and> \<not> sorted (extract_exemptions
          ''Withheld under (b)(7)(C). See Exemption 7(C) and Exemption 4.'' ''US-Federal'')
   \<and> extract_exemptions ''Exemption 7 and Exemption 4'' ''US-Federal''
       = [''(b)(7)'', ''(b)(4)'']"
proof -
  have 1: "extract_exemptions ''Withheld under (b)(7)(C). See Exemption 7(C) and Exemption 4.''
     ''US-Federal''
     = [''(b)(7)(C)'', ''(b)(7(C))'', ''(b)(4)'']"
    by code_simp
  have 2: "\<not> sorted [''(b)(7)(C)'', ''(b)(7(C))'', ''(b)(4)'']"
    by code_simp
  have 3: "extract_exemptions ''Exemption 7 and Exemption 4'' ''US-Federal''
       = [''(b)(7)'', ''(b)(4)'']"
    by code_simp
  from 1 2 3 show ?thesis by simp
qed

section \<open>Risk score\<close>








lemma foldl_add_flag_snoc:
  "foldl add_flag r (fs @ [f]) = add_flag (foldl add_flag r fs) f"
  by simp








section \<open>Excessive withholding under the UK and India rule sets\<close>












end
